theory Spec2Isabelle
  imports Main
begin

section \<open>Python values used by the notes service\<close>

text \<open>
  A Python \<open>str\<close> is a sequence of Unicode code points, so it is modelled as a list of
  natural numbers (one per code point): slicing and \<open>len\<close> count code points, as in
  the source. \<open>lit\<close> turns an ASCII literal of the source into such a list.
\<close>

type_synonym pystr = "nat list"

definition lit :: "string \<Rightarrow> pystr" where
  "lit s = map of_char s"

text \<open>
  \<open>str.isspace\<close> for one code point. \<open>str.strip()\<close> and the regular expression class
  \<open>\s\<close> of a \<open>str\<close> pattern both use this set (CPython's \<open>Py_UNICODE_ISSPACE\<close>):
  U+0009..U+000D, U+001C..U+0020, U+0085, U+00A0, U+1680, U+2000..U+200A, U+2028, U+2029,
  U+202F, U+205F and U+3000.
\<close>

definition isspace :: "nat \<Rightarrow> bool" where
  "isspace c \<longleftrightarrow>
     (9 \<le> c \<and> c \<le> 13) \<or> (28 \<le> c \<and> c \<le> 32) \<or> c = 133 \<or> c = 160 \<or> c = 5760 \<or>
     (8192 \<le> c \<and> c \<le> 8202) \<or> c = 8232 \<or> c = 8233 \<or> c = 8239 \<or> c = 8287 \<or>
     c = 12288"

text \<open>\<open>s.strip()\<close>: leading and trailing white space removed.\<close>

definition strip :: "pystr \<Rightarrow> pystr" where
  "strip s = rev (dropWhile isspace (rev (dropWhile isspace s)))"

text \<open>\<open>sep.join(parts)\<close>.\<close>

fun join :: "pystr \<Rightarrow> pystr list \<Rightarrow> pystr" where
  "join sep [] = []"
| "join sep [x] = x"
| "join sep (x # y # ys) = x @ sep @ join sep (y # ys)"

text \<open>\<open>s.startswith(p)\<close> and \<open>s.endswith(p)\<close>.\<close>

definition startswith :: "pystr \<Rightarrow> pystr \<Rightarrow> bool" where
  "startswith s p \<longleftrightarrow> take (length p) s = p"

definition endswith :: "pystr \<Rightarrow> pystr \<Rightarrow> bool" where
  "endswith s p \<longleftrightarrow> length p \<le> length s \<and> drop (length s - length p) s = p"

text \<open>
  \<open>re.sub(r'\s+', ' ', s)\<close>: every maximal run of white space becomes one space
  (code point 32).
\<close>

function re_sub_spaces :: "pystr \<Rightarrow> pystr" where
  "re_sub_spaces [] = []"
| "re_sub_spaces (c # cs) =
     (if isspace c then 32 # re_sub_spaces (dropWhile isspace cs)
      else c # re_sub_spaces cs)"
  by pat_completeness auto
termination
  by (relation "measure length") (auto simp: less_Suc_eq_le length_dropWhile_le)

text \<open>
  The pattern \<open><text[^>]*>([^<]+)</text>\<close> matched at the start of \<open>s\<close>. The result is the
  text of group 1 and the rest of the input after the match. Backtracking never finds
  another match: \<open>[^>]*\<close> is greedy and must be followed by \<open>>\<close>, so it ends at the first
  \<open>>\<close>; \<open>[^<]+\<close> is greedy and must be followed by \<open><\<close>, so it ends at the first \<open><\<close>.
\<close>

definition match_text_tag :: "pystr \<Rightarrow> (pystr \<times> pystr) option" where
  "match_text_tag s =
     (if \<not> startswith s (lit ''<text'') then None
      else
        (case dropWhile (\<lambda>c. c \<noteq> 62) (drop 5 s) of
           [] \<Rightarrow> None
         | _ # r \<Rightarrow>
             let g = takeWhile (\<lambda>c. c \<noteq> 60) r;
                 r' = dropWhile (\<lambda>c. c \<noteq> 60) r
             in if g = [] \<or> \<not> startswith r' (lit ''</text>'') then None
                else Some (g, drop 7 r')))"

lemma match_text_tag_shorter:
  "match_text_tag s = Some (g, r) \<Longrightarrow> length r < length s"
proof -
  assume m: "match_text_tag s = Some (g, r)"
  have a: "length (dropWhile P xs) \<le> length xs" for P and xs :: pystr
    by (rule length_dropWhile_le)
  from m obtain x t where
    d: "dropWhile (\<lambda>c. c \<noteq> 62) (drop 5 s) = x # t"
    and r: "r = drop 7 (dropWhile (\<lambda>c. c \<noteq> 60) t)"
    and st: "startswith s (lit ''<text'')"
    by (auto simp: match_text_tag_def Let_def split: if_splits list.splits)
  from st have "s \<noteq> []"
    by (auto simp: startswith_def lit_def)
  have "length r \<le> length (dropWhile (\<lambda>c. c \<noteq> 60) t)"
    using r by simp
  also have "\<dots> \<le> length t" by (rule a)
  also have "\<dots> < length (x # t)" by simp
  also have "\<dots> \<le> length (drop 5 s)" using a [of "\<lambda>c. c \<noteq> 62" "drop 5 s"] d by simp
  also have "\<dots> \<le> length s" by simp
  finally show ?thesis .
qed

text \<open>
  \<open>re.findall(r'<text[^>]*>([^<]+)</text>', s)\<close>: the group of every match, scanning from
  the left; after a match the scan goes on behind it, otherwise one code point further.
\<close>

function re_findall_text :: "pystr \<Rightarrow> pystr list" where
  "re_findall_text [] = []"
| "re_findall_text (c # cs) =
     (case match_text_tag (c # cs) of
        Some (g, r) \<Rightarrow> g # re_findall_text r
      | None \<Rightarrow> re_findall_text cs)"
  by pat_completeness auto
termination
  by (relation "measure length") (auto dest: match_text_tag_shorter)

section \<open>Exceptions\<close>

text \<open>
  The exceptions the service raises or handles by class. \<open>HTTPException\<close> carries its
  status code and detail. \<open>ParseError\<close> is \<open>xml.etree.ElementTree.ParseError\<close>,
  \<open>JSONDecodeError\<close> is \<open>json.JSONDecodeError\<close>; \<open>LibraryError\<close> stands for every other
  subclass of \<open>Exception\<close> that a library call raises, tagged with its message.
\<close>

datatype exn =
    HTTPException nat pystr
  | ParseError
  | JSONDecodeError
  | AttributeError
  | KeyError
  | FileNotFoundError
  | LibraryError pystr

section \<open>Caption parser\<close>

text \<open>An \<open>xml.etree.ElementTree.Element\<close>: tag, attributes, text, children and tail.\<close>

datatype element =
  Element (tag: pystr) (attrib: "(pystr \<times> pystr) list") (elem_text: "pystr option")
    (children: "element list") (tail: "pystr option")

text \<open>\<open>elem.iter()\<close>: the element and all its descendants in document order.\<close>

fun iter :: "element \<Rightarrow> element list" where
  "iter (Element t a x cs y) = Element t a x cs y # concat (map iter cs)"

text \<open>
  \<open>root.findall('.//text')\<close>: the descendants of \<open>root\<close> with tag \<open>text\<close>, in document
  order. ElementPath yields the elements of \<open>root.iter('text')\<close> other than \<open>root\<close> itself.
\<close>

definition findall_text :: "element \<Rightarrow> element list" where
  "findall_text root =
     filter (\<lambda>e. tag e = lit ''text'') (concat (map iter (children root)))"

text \<open>
  The loop over the found elements: an element whose \<open>text\<close> is \<open>None\<close> or empty is
  skipped, the text of every other one is appended stripped.
\<close>

fun text_parts :: "element list \<Rightarrow> pystr list" where
  "text_parts [] = []"
| "text_parts (e # es) =
     (case elem_text e of
        None \<Rightarrow> text_parts es
      | Some t \<Rightarrow> if t = [] then text_parts es else strip t # text_parts es)"

text \<open>
  \<open>NoteService._extract_text_from_xml_transcript\<close>. The XML parser \<open>ET.fromstring\<close> is a
  parameter: it returns the root element or raises. The result is a sum so that the
  handlers of the source are visible: \<open>ParseError\<close> leads to the regular expression,
  every other exception to the input itself.
\<close>

definition extract_text_from_xml_transcript ::
  "(pystr \<Rightarrow> exn + element) \<Rightarrow> pystr \<Rightarrow> exn + pystr" where
  "extract_text_from_xml_transcript fromstring xml_content =
     (case fromstring xml_content of
        Inr root \<Rightarrow>
          Inr (strip (re_sub_spaces (join (lit '' '') (text_parts (findall_text root)))))
      | Inl ParseError \<Rightarrow>
          (let matches = re_findall_text xml_content in
           if matches \<noteq> []
           then Inr (strip (re_sub_spaces (join (lit '' '') (map strip matches))))
           else Inr xml_content)
      | Inl e \<Rightarrow> Inr xml_content)"

text \<open>
  The leading text of an element (\<open>elem.text\<close>), with \<open>None\<close> read as the empty string.
\<close>

definition text_or_empty :: "element \<Rightarrow> pystr" where
  "text_or_empty e = (case elem_text e of None \<Rightarrow> [] | Some t \<Rightarrow> t)"

text \<open>
  The text content of an element: its own text, then for every child the child's text
  content and the text behind the child (\<open>''.join(elem.itertext())\<close>).
\<close>

fun text_content :: "element \<Rightarrow> pystr" where
  "text_content (Element t a x cs y) =
     (case x of None \<Rightarrow> [] | Some u \<Rightarrow> u) @
     concat (map (\<lambda>c. text_content c @ (case tail c of None \<Rightarrow> [] | Some u \<Rightarrow> u)) cs)"

text \<open>
  The caption text as the specification words it: the text content of every \<open><text>\<close>
  element of the document, the root included, in document order, joined by single
  spaces, white space collapsed and both ends trimmed. It is compared with the parser
  below.
\<close>

definition spec_caption_text :: "element \<Rightarrow> pystr" where
  "spec_caption_text root =
     strip (re_sub_spaces (join (lit '' '')
       (map text_content (filter (\<lambda>e. tag e = lit ''text'') (iter root)))))"

text \<open>
  The words of a string: its maximal runs of code points that are not white space, as
  \<open>s.split()\<close> returns them. The service does not call it; the normal form that
  \<open>re.sub\<close> followed by \<open>strip\<close> computes is stated with it.
\<close>

function split_ws :: "pystr \<Rightarrow> pystr list" where
  "split_ws s =
     (let s' = dropWhile isspace s in
      if s' = [] then []
      else takeWhile (\<lambda>c. \<not> isspace c) s' # split_ws (dropWhile (\<lambda>c. \<not> isspace c) s'))"
  by pat_completeness auto
termination
proof (relation "measure length", goal_cases)
  case 1
  show ?case by simp
next
  case (2 s s')
  then have ne: "dropWhile isspace s \<noteq> []" and eq: "s' = dropWhile isspace s"
    by simp_all
  have "s' \<noteq> []" using ne eq by simp
  then obtain c cs where s': "s' = c # cs"
    by (auto simp: neq_Nil_conv)
  have c: "\<not> isspace c"
    using hd_dropWhile [OF ne] s' eq by (metis list.sel(1))
  have "length (dropWhile (\<lambda>c. \<not> isspace c) s') \<le> length cs"
    using s' c by (simp add: length_dropWhile_le)
  also have "\<dots> < length s'" using s' by simp
  also have "\<dots> \<le> length s" using 2 by (simp add: length_dropWhile_le)
  finally show ?case by simp
qed

declare split_ws.simps [simp del]

text \<open>
  The tree that \<open>ET.fromstring\<close> returns for \<open><text start="0">Hello</text>\<close>: one element
  with tag \<open>text\<close>, one attribute, the text \<open>Hello\<close> and no children.
\<close>

definition root_text_doc :: element where
  "root_text_doc =
     Element (lit ''text'') [(lit ''start'', lit ''0'')] (Some (lit ''Hello'')) [] None"

text \<open>A caption document as YouTube serves it: a \<open>transcript\<close> root with \<open>text\<close> children.\<close>

definition transcript_doc :: element where
  "transcript_doc =
     Element (lit ''transcript'') [] None
       [Element (lit ''text'') [(lit ''start'', lit ''0'')] (Some (lit ''Hello'')) [] None,
        Element (lit ''text'') [(lit ''start'', lit ''1'')] (Some (lit '' big  world '')) [] None,
        Element (lit ''text'') [(lit ''start'', lit ''2'')] None [] None]
       None"

section \<open>Values of parsed JSON\<close>

text \<open>
  What \<open>json.loads\<close> returns: \<open>None\<close>, a \<open>bool\<close>, an \<open>int\<close>, a \<open>float\<close>, a \<open>str\<close>, a
  \<open>list\<close> or a \<open>dict\<close> with string keys. A finite float is \<open>PFloat m e\<close>, the number
  \<open>m * 2 ^ e\<close>; \<open>PNonFinite\<close> is \<open>nan\<close> or an infinity, which \<open>json.loads\<close> accepts too.
  A dict is an association list, looked up from the front.
\<close>

datatype pyval =
    PNone
  | PBool bool
  | PInt int
  | PFloat int int
  | PNonFinite
  | PStr pystr
  | PList "pyval list"
  | PDict "(pystr \<times> pyval) list"

text \<open>The truth value of a Python value, as \<open>not v\<close> tests it.\<close>

fun truthy :: "pyval \<Rightarrow> bool" where
  "truthy PNone = False"
| "truthy (PBool b) = b"
| "truthy (PInt i) = (i \<noteq> 0)"
| "truthy (PFloat m e) = (m \<noteq> 0)"
| "truthy PNonFinite = True"
| "truthy (PStr s) = (s \<noteq> [])"
| "truthy (PList xs) = (xs \<noteq> [])"
| "truthy (PDict kvs) = (kvs \<noteq> [])"

text \<open>\<open>isinstance(v, list)\<close>.\<close>

fun is_list :: "pyval \<Rightarrow> bool" where
  "is_list (PList xs) = True"
| "is_list v = False"

text \<open>
  \<open>not str(v).strip()\<close>. For a string, \<open>str(v)\<close> is the string itself. For every other
  value \<open>str(v)\<close> is its \<open>repr\<close> (\<open>None\<close>, \<open>True\<close>, \<open>0\<close>, \<open>1.5\<close>, \<open>nan\<close>, \<open>[]\<close>, \<open>{}\<close>, ...),
  which is never empty and neither starts nor ends with white space.
\<close>

fun str_strip_empty :: "pyval \<Rightarrow> bool" where
  "str_strip_empty (PStr s) = (strip s = [])"
| "str_strip_empty v = False"

text \<open>\<open>d.get(k, default)\<close>.\<close>

definition dict_get :: "(pystr \<times> pyval) list \<Rightarrow> pystr \<Rightarrow> pyval \<Rightarrow> pyval" where
  "dict_get d k dflt = (case map_of d k of None \<Rightarrow> dflt | Some v \<Rightarrow> v)"

section \<open>Note generator\<close>

text \<open>\<open>s.replace(c, r)\<close> for a pattern \<open>c\<close> of one code point.\<close>

definition replace_char :: "nat \<Rightarrow> pystr \<Rightarrow> pystr \<Rightarrow> pystr" where
  "replace_char c r s = concat (map (\<lambda>x. if x = c then r else [x]) s)"

text \<open>\<open>str(x).replace('{', '{{').replace('}', '}}')\<close>.\<close>

definition escape_braces :: "pystr \<Rightarrow> pystr" where
  "escape_braces s = replace_char 125 [125, 125] (replace_char 123 [123, 123] s)"

text \<open>
  The response text as the generator prepares it for the JSON parser: stripped, a leading
  \<open>```json\<close> or \<open>```\<close> and a trailing \<open>```\<close> removed, and stripped again.
\<close>

definition strip_code_fences :: "pystr \<Rightarrow> pystr" where
  "strip_code_fences text0 =
     (let t1 = strip text0;
          t2 = (if startswith t1 (lit ''```json'') then drop 7 t1
                else if startswith t1 (lit ''```'') then drop 3 t1
                else t1);
          t3 = (if endswith t2 (lit ''```'') then take (length t2 - 3) t2 else t2)
      in strip t3)"

text \<open>
  The object that replaces a response which is not JSON: the items of the dictionary,
  and the dictionary.
\<close>

definition fallback_fields :: "pystr \<Rightarrow> pystr \<Rightarrow> pystr \<Rightarrow> (pystr \<times> pyval) list" where
  "fallback_fields title channel response_text =
     [(lit ''video_title'', PStr title),
      (lit ''channel_name'', PStr channel),
      (lit ''summary'',
         PStr (if length response_text > 1000 then take 1000 response_text
               else response_text)),
      (lit ''key_points'', PList [PStr (lit ''Key point extracted from video'')]),
      (lit ''timestamps'',
         PList
           [PDict
              [(lit ''time'', PStr (lit ''00:00'')),
               (lit ''description'',
                  PStr (lit ''Video content extracted (parsing failed, using fallback)''))]])]"

definition fallback_note :: "pystr \<Rightarrow> pystr \<Rightarrow> pystr \<Rightarrow> pyval" where
  "fallback_note title channel response_text =
     PDict (fallback_fields title channel response_text)"

text \<open>
  \<open>json.loads\<close> is a parameter. Its \<open>JSONDecodeError\<close> is handled by the fallback, every
  other exception goes on to the handler of the whole generator.
\<close>

definition parse_note_data ::
  "(pystr \<Rightarrow> exn + pyval) \<Rightarrow> pystr \<Rightarrow> pystr \<Rightarrow> pystr \<Rightarrow> exn + pyval" where
  "parse_note_data loads title channel response_text =
     (case loads response_text of
        Inr v \<Rightarrow> Inr v
      | Inl JSONDecodeError \<Rightarrow> Inr (fallback_note title channel response_text)
      | Inl e \<Rightarrow> Inl e)"

text \<open>
  The \<open>result\<close> dictionary: the fields of the parsed object, the title and channel of the
  input where the object has none, and an empty list where \<open>key_points\<close> or
  \<open>timestamps\<close> is not a list.
\<close>

definition structure_result ::
  "(pystr \<times> pyval) list \<Rightarrow> pystr \<Rightarrow> pystr \<Rightarrow> (pystr \<times> pyval) list" where
  "structure_result note_data title channel =
     (let key_points_list = dict_get note_data (lit ''key_points'') (PList []);
          timestamps_list = dict_get note_data (lit ''timestamps'') (PList [])
      in [(lit ''video_title'', dict_get note_data (lit ''video_title'') (PStr title)),
          (lit ''channel_name'', dict_get note_data (lit ''channel_name'') (PStr channel)),
          (lit ''summary'', dict_get note_data (lit ''summary'') (PStr [])),
          (lit ''key_points'', if is_list key_points_list then key_points_list else PList []),
          (lit ''timestamps'', if is_list timestamps_list then timestamps_list else PList [])])"

text \<open>\<open>not v or not str(v).strip()\<close>: the test of the three narrative fields.\<close>

definition field_blank :: "pyval \<Rightarrow> bool" where
  "field_blank v \<longleftrightarrow> \<not> truthy v \<or> str_strip_empty v"

text \<open>
  \<open>not v or not isinstance(v, list) or len(v) == 0\<close>: the test of the two list fields.
\<close>

definition not_nonempty_list :: "pyval \<Rightarrow> bool" where
  "not_nonempty_list v \<longleftrightarrow>
     \<not> truthy v \<or> \<not> is_list v \<or> (case v of PList xs \<Rightarrow> length xs = 0 | _ \<Rightarrow> False)"

text \<open>
  The list \<open>missing_fields\<close> that both the generator (on \<open>result\<close>, which has all five
  keys) and \<open>create_note\<close> (on \<open>generated_data\<close>, with \<open>get\<close>) build, one test after the
  other.
\<close>

definition missing_fields :: "(pystr \<times> pyval) list \<Rightarrow> pystr list" where
  "missing_fields r =
     (let m0 = [];
          m1 = (if field_blank (dict_get r (lit ''video_title'') PNone)
                then m0 @ [lit ''video_title''] else m0);
          m2 = (if field_blank (dict_get r (lit ''channel_name'') PNone)
                then m1 @ [lit ''channel_name''] else m1);
          m3 = (if field_blank (dict_get r (lit ''summary'') PNone)
                then m2 @ [lit ''summary''] else m2);
          m4 = (if not_nonempty_list (dict_get r (lit ''key_points'') (PList []))
                then m3 @ [lit ''key_points''] else m3);
          m5 = (if not_nonempty_list (dict_get r (lit ''timestamps'') (PList []))
                then m4 @ [lit ''timestamps''] else m4)
      in m5)"

text \<open>The detail of the generator's error for a list of missing fields.\<close>

definition generator_missing_detail :: "pystr list \<Rightarrow> pystr" where
  "generator_missing_detail ms =
     lit ''Failed to generate complete note. Missing required fields: '' @
     join (lit '', '') ms @
     lit ''. Please try again or choose a different video.''"

text \<open>
  The validation at the end of the generator: the result, or the internal error (status
  500) that names the missing fields.
\<close>

definition validate_result :: "(pystr \<times> pyval) list \<Rightarrow> exn + (pystr \<times> pyval) list" where
  "validate_result result =
     (let ms = missing_fields result in
      if ms \<noteq> [] then Inl (HTTPException 500 (generator_missing_detail ms))
      else Inr result)"

text \<open>
  The generator from the model's response text on (the body of its \<open>try\<close> after the
  call): fences stripped, parsed or replaced by the fallback, structured and validated.
  \<open>note_data.get\<close> raises \<open>AttributeError\<close> when the parsed value is not a dict.
\<close>

definition note_from_response ::
  "(pystr \<Rightarrow> exn + pyval) \<Rightarrow> pystr \<Rightarrow> pystr \<Rightarrow> pystr \<Rightarrow> exn + (pystr \<times> pyval) list" where
  "note_from_response loads title channel text0 =
     (case parse_note_data loads title channel (strip_code_fences text0) of
        Inl e \<Rightarrow> Inl e
      | Inr (PDict note_data) \<Rightarrow> validate_result (structure_result note_data title channel)
      | Inr v \<Rightarrow> Inl AttributeError)"

section \<open>Collaborators and state\<close>

text \<open>
  What pytubefix's \<open>YouTube\<close> object answers for a video: its caption tracks, the file
  name of its audio-only stream (\<open>None\<close> when it has none) and its metadata. Every
  property is fetched on access and may raise.
\<close>

record caption_track =
  c_code :: pystr
  c_url :: pystr

record video_info =
  i_title :: pystr
  i_author :: pystr
  i_length :: "int option"
  i_thumbnail_url :: "pystr option"
  i_views :: "int option"
  i_likes :: "int option"
  i_publish_date :: "int option"

record yt_video =
  yt_captions :: "exn + caption_track list"
  yt_audio_only :: "exn + pystr option"
  yt_info :: "exn + video_info"

text \<open>
  A row of the \<open>notes\<close> table. The three narrative columns hold a text or NULL
  (\<open>PNone\<close>), as the database stores what the service assigns. \<open>key_points\<close> and
  \<open>timestamps\<close> hold the JSON text of a value, or NULL: the model keeps the value that
  \<open>json.dumps\<close> serialises.
\<close>

record Note =
  note_id :: int
  user_id :: int
  youtube_url :: pystr
  video_title :: pyval
  channel_name :: pyval
  summary :: pyval
  key_points :: "pyval option"
  timestamps :: "pyval option"
  duration_in_seconds :: "int option"
  thumbnail_url :: "pystr option"
  views :: "int option"
  likes :: "int option"
  publish_date :: "int option"
  created_at :: int
  updated_at :: int

text \<open>
  The libraries and services the service calls. They are not part of the repository and
  are parameters of the model: \<open>str(e)\<close> of an exception, \<open>ET.fromstring\<close>, the text of
  the prompt for the escaped title, channel, URL and subtitle text, the Gemini call with
  \<open>response.text\<close> as its result, \<open>json.loads\<close>, \<open>YouTube(url)\<close>, \<open>requests.get\<close> with
  \<open>raise_for_status\<close> and \<open>response.text\<close>, the directory of the backend,
  \<open>os.makedirs\<close>, the download of a stream to a path, \<open>AudioSegment.from_file\<close> and
  \<open>export\<close>, the Deepgram call on a file with the transcript of the first alternative of
  the first channel as its result, and \<open>datetime.utcnow\<close> at the n-th reading of the
  clock. A call that returns \<open>exn option\<close> raises the exception or succeeds with \<open>None\<close>.

  The database is a collaborator too. \<open>db_adapt\<close> is what its driver makes of a value
  that is not a string when it is bound to a text column: the text the column then
  holds (the title \<open>123\<close> is stored as the string \<open>123\<close>) or the exception of the flush
  (a dict cannot be adapted). \<open>session_commit\<close> is every other failure of \<open>add\<close>,
  \<open>commit\<close> and \<open>refresh\<close> for a row: a text longer than its column, a violated
  constraint, a lost connection.
\<close>

record env =
  str_of_exn :: "exn \<Rightarrow> pystr"
  et_fromstring :: "pystr \<Rightarrow> exn + element"
  prompt_template :: "pystr \<Rightarrow> pystr \<Rightarrow> pystr \<Rightarrow> pystr \<Rightarrow> pystr"
  gemini_generate_content :: "pystr \<Rightarrow> exn + pystr option"
  json_loads :: "pystr \<Rightarrow> exn + pyval"
  pytube_YouTube :: "pystr \<Rightarrow> exn + yt_video"
  requests_get :: "pystr \<Rightarrow> exn + pystr"
  backend_dir :: pystr
  os_makedirs :: "pystr \<Rightarrow> exn option"
  stream_download :: "pystr \<Rightarrow> exn option"
  audio_from_file :: "pystr \<Rightarrow> exn option"
  audio_export :: "pystr \<Rightarrow> exn option"
  deepgram_transcribe :: "pystr \<Rightarrow> exn + pystr"
  datetime_utcnow :: "nat \<Rightarrow> int"
  db_adapt :: "pyval \<Rightarrow> exn + pyval"
  session_commit :: "Note \<Rightarrow> exn option"

text \<open>The calls to external services, in the order in which they are made.\<close>

datatype call =
    CallYouTube pystr
  | CallHttpGet pystr
  | CallDeepgram pystr
  | CallGemini pystr

text \<open>
  The state the service works on: the rows of the table in the order of insertion, the
  next primary key, the files of the scratch directory, the service calls made so far
  and the number of readings of the clock.
\<close>

record world =
  notes_table :: "Note list"
  next_id :: int
  files :: "pystr set"
  calls :: "call list"
  clock :: nat

text \<open>
  \<open>NoteService._generate_note_with_gemini\<close>: the prompt is built from the escaped inputs
  and sent; every exception raised in the body, the validation's own \<open>HTTPException\<close>
  included, is caught by \<open>except Exception\<close> and raised again as status 500 with the
  prefixed \<open>str(e)\<close>.
\<close>

definition generate_note_with_gemini ::
  "env \<Rightarrow> world \<Rightarrow> pystr \<Rightarrow> pystr \<Rightarrow> pystr \<Rightarrow> pystr \<Rightarrow>
     (exn + (pystr \<times> pyval) list) \<times> world" where
  "generate_note_with_gemini E s subtitle_text video_url title channel =
     (let prompt = prompt_template E (escape_braces title) (escape_braces channel)
                     (escape_braces video_url) (escape_braces subtitle_text);
          s' = s\<lparr>calls := calls s @ [CallGemini prompt]\<rparr>;
          body = (case gemini_generate_content E prompt of
                    Inl e \<Rightarrow> Inl e
                  | Inr None \<Rightarrow> Inl AttributeError
                  | Inr (Some text0) \<Rightarrow> note_from_response (json_loads E) title channel text0)
      in case body of
           Inr result \<Rightarrow> (Inr result, s')
         | Inl e \<Rightarrow>
             (Inl (HTTPException 500
                     (lit ''Failed to generate note with AI: '' @ str_of_exn E e)), s'))"

section \<open>Transcript acquirer\<close>

text \<open>\<open>os.path.join(a, b)\<close> on POSIX and \<open>s.split(c)[-1]\<close>.\<close>

definition os_path_join :: "pystr \<Rightarrow> pystr \<Rightarrow> pystr" where
  "os_path_join a b =
     (if startswith b (lit ''/'') then b
      else if a = [] \<or> endswith a (lit ''/'') then a @ b
      else a @ lit ''/'' @ b)"

definition last_segment :: "nat \<Rightarrow> pystr \<Rightarrow> pystr" where
  "last_segment c s = rev (takeWhile (\<lambda>x. x \<noteq> c) (rev s))"

text \<open>
  The inner \<open>try\<close> of \<open>_get_subtitle_from_audio\<close>: the file is opened and sent to the
  transcription service, and removed after the transcript has been read from the
  response. Nothing is removed when a step raises.
\<close>

definition transcribe_steps :: "env \<Rightarrow> world \<Rightarrow> pystr \<Rightarrow> (exn + pystr) \<times> world" where
  "transcribe_steps E s audio_file_path =
     (if audio_file_path \<notin> files s then (Inl FileNotFoundError, s)
      else
        (let s1 = s\<lparr>calls := calls s @ [CallDeepgram audio_file_path]\<rparr> in
         (case deepgram_transcribe E audio_file_path of
            Inl e \<Rightarrow> (Inl e, s1)
          | Inr transcript \<Rightarrow>
              (Inr transcript, s1\<lparr>files := files s1 - {audio_file_path}\<rparr>))))"

text \<open>
  The scratch directory below the backend directory, the path of the normalised file
  (named after the part of the URL behind its last \<open>=\<close>) and the path of the download.
\<close>

definition temp_audio_dir :: "env \<Rightarrow> pystr" where
  "temp_audio_dir E = os_path_join (backend_dir E) (lit ''temp_audio_files'')"

definition audio_file_path :: "env \<Rightarrow> pystr \<Rightarrow> pystr" where
  "audio_file_path E video_url =
     os_path_join (temp_audio_dir E) (last_segment 61 video_url @ lit ''.wav'')"

definition download_path :: "env \<Rightarrow> pystr \<Rightarrow> pystr" where
  "download_path E default_filename = os_path_join (temp_audio_dir E) default_filename"

text \<open>
  The body of the outer \<open>try\<close> of \<open>_get_subtitle_from_audio\<close>: download, transcode, remove
  the download, transcribe. A download or export that raises is taken to leave no file.
  The inner handler turns every exception of the transcription into status 500.
\<close>

definition audio_steps :: "env \<Rightarrow> world \<Rightarrow> pystr \<Rightarrow> (exn + pystr) \<times> world" where
  "audio_steps E s video_url =
     (let s0 = s\<lparr>calls := calls s @ [CallYouTube video_url]\<rparr> in
      (case pytube_YouTube E video_url of
         Inl e \<Rightarrow> (Inl e, s0)
       | Inr yt \<Rightarrow>
           (case os_makedirs E (temp_audio_dir E) of
              Some e \<Rightarrow> (Inl e, s0)
            | None \<Rightarrow>
                (case yt_audio_only yt of
                   Inl e \<Rightarrow> (Inl e, s0)
                 | Inr None \<Rightarrow> (Inl AttributeError, s0)
                 | Inr (Some default_filename) \<Rightarrow>
                     (let m4a = download_path E default_filename;
                          wav = audio_file_path E video_url
                      in
                        (case stream_download E m4a of
                           Some e \<Rightarrow> (Inl e, s0)
                         | None \<Rightarrow>
                             (let s1 = s0\<lparr>files := insert m4a (files s0)\<rparr> in
                              (case audio_from_file E m4a of
                                 Some e \<Rightarrow> (Inl e, s1)
                               | None \<Rightarrow>
                                   (case audio_export E wav of
                                      Some e \<Rightarrow> (Inl e, s1)
                                    | None \<Rightarrow>
                                        (let s2 = s1\<lparr>files := insert wav (files s1)\<rparr>;
                                             s3 = s2\<lparr>files := files s2 - {m4a}\<rparr>
                                         in
                                           (case transcribe_steps E s3 wav of
                                              (Inr transcript, s4) \<Rightarrow> (Inr transcript, s4)
                                            | (Inl e, s4) \<Rightarrow>
                                                (Inl (HTTPException 500
                                                        (lit ''Failed to convert audio to text: '' @
                                                         str_of_exn E e)), s4))))))))))))"

text \<open>\<open>NoteService._get_subtitle_from_audio\<close>: the outer handler wraps every exception.\<close>

definition get_subtitle_from_audio :: "env \<Rightarrow> world \<Rightarrow> pystr \<Rightarrow> (exn + pystr) \<times> world" where
  "get_subtitle_from_audio E s video_url =
     (case audio_steps E s video_url of
        (Inr transcript, s') \<Rightarrow> (Inr transcript, s')
      | (Inl e, s') \<Rightarrow>
          (Inl (HTTPException 500
                  (lit ''Failed to get subtitle from audio of YouTube video: '' @
                   str_of_exn E e)), s'))"

text \<open>The dictionary that \<open>get_video_metadata_from_youtube_video_url\<close> returns.\<close>

record video =
  v_title :: pystr
  v_caption :: pystr
  v_channel_name :: pystr
  v_duration_in_seconds :: "int option"
  v_thumbnail_url :: "pystr option"
  v_views :: "int option"
  v_likes :: "int option"
  v_publish_date :: "int option"

text \<open>
  The body of the \<open>try\<close> of \<open>get_video_metadata_from_youtube_video_url\<close>: the language
  code of the first caption track, the track looked up by that code, fetched and parsed;
  the audio path when the video has no caption track. pytubefix keeps the tracks in a
  dictionary by language code, so of several tracks with one code the last one is
  found.
\<close>

definition subtitle_steps ::
  "env \<Rightarrow> world \<Rightarrow> pystr \<Rightarrow> (exn + yt_video \<times> pystr) \<times> world" where
  "subtitle_steps E s video_url =
     (let s0 = s\<lparr>calls := calls s @ [CallYouTube video_url]\<rparr> in
      (case pytube_YouTube E video_url of
         Inl e \<Rightarrow> (Inl e, s0)
       | Inr yt \<Rightarrow>
           (case yt_captions yt of
              Inl e \<Rightarrow> (Inl e, s0)
            | Inr [] \<Rightarrow>
                (case get_subtitle_from_audio E s0 video_url of
                   (Inl e, s1) \<Rightarrow> (Inl e, s1)
                 | (Inr subtitle_content, s1) \<Rightarrow> (Inr (yt, subtitle_content), s1))
            | Inr (first # rest) \<Rightarrow>
                (case find (\<lambda>c. c_code c = c_code first) (rev (first # rest)) of
                   None \<Rightarrow> (Inl KeyError, s0)
                 | Some caption \<Rightarrow>
                     (let s1 = s0\<lparr>calls := calls s0 @ [CallHttpGet (c_url caption)]\<rparr> in
                      (case requests_get E (c_url caption) of
                         Inl e \<Rightarrow> (Inl e, s1)
                       | Inr response_text \<Rightarrow>
                           (case extract_text_from_xml_transcript (et_fromstring E)
                                   response_text of
                              Inl e \<Rightarrow> (Inl e, s1)
                            | Inr subtitle_content \<Rightarrow> (Inr (yt, subtitle_content), s1))))))))"

text \<open>
  \<open>NoteService.get_video_metadata_from_youtube_video_url\<close>: the handler wraps every
  exception of the body; the metadata is read after the \<open>try\<close>, so an exception there is
  raised as it is.
\<close>

definition get_video_metadata_from_youtube_video_url ::
  "env \<Rightarrow> world \<Rightarrow> pystr \<Rightarrow> (exn + video) \<times> world" where
  "get_video_metadata_from_youtube_video_url E s video_url =
     (case subtitle_steps E s video_url of
        (Inl e, s') \<Rightarrow>
          (Inl (HTTPException 500
                  (lit ''Failed to download audio from YouTube video: '' @ str_of_exn E e)), s')
      | (Inr (yt, subtitle_content), s') \<Rightarrow>
          (case yt_info yt of
             Inl e \<Rightarrow> (Inl e, s')
           | Inr info \<Rightarrow>
               (Inr \<lparr>v_title = i_title info, v_caption = subtitle_content,
                      v_channel_name = i_author info, v_duration_in_seconds = i_length info,
                      v_thumbnail_url = i_thumbnail_url info, v_views = i_views info,
                      v_likes = i_likes info, v_publish_date = i_publish_date info\<rparr>, s')))"

section \<open>Notes service: create and update\<close>

text \<open>The detail of \<open>create_note\<close>'s error for a list of missing fields.\<close>

definition create_missing_detail :: "pystr list \<Rightarrow> pystr" where
  "create_missing_detail ms =
     lit ''Cannot create note: Missing required fields ('' @
     join (lit '', '') ms @
     lit ''). The AI was unable to generate complete note data. Please try again or choose a different video.''"

definition no_captions_detail :: pystr where
  "no_captions_detail =
     lit ''No captions/subtitles available for this video. Please choose a video with captions.''"

text \<open>
  What a text column holds after a value has been bound to it: a string is stored as it
  is and \<open>None\<close> as NULL; every other value is left to the driver.
\<close>

definition stored_text :: "env \<Rightarrow> pyval \<Rightarrow> exn + pyval" where
  "stored_text E v =
     (case v of PStr t \<Rightarrow> Inr (PStr t) | PNone \<Rightarrow> Inr PNone | _ \<Rightarrow> db_adapt E v)"

text \<open>
  The end of \<open>create_note\<close>: the \<open>Note\<close> is built, which reads the clock twice for the two
  time stamps, then added, committed and refreshed. The row is in the table only when
  the three texts can be stored and the commit succeeds; the database assigns the key.
\<close>

definition persist_note ::
  "env \<Rightarrow> world \<Rightarrow> int \<Rightarrow> pystr \<Rightarrow> (pystr \<times> pyval) list \<Rightarrow> video \<Rightarrow> (exn + Note) \<times> world" where
  "persist_note E s uid url generated_data video =
     (let s' = s\<lparr>clock := Suc (Suc (clock s))\<rparr>;
          kp = dict_get generated_data (lit ''key_points'') PNone;
          ts = dict_get generated_data (lit ''timestamps'') PNone
      in
        (case stored_text E (dict_get generated_data (lit ''video_title'') PNone) of
           Inl e \<Rightarrow> (Inl e, s')
         | Inr title \<Rightarrow>
             (case stored_text E (dict_get generated_data (lit ''channel_name'') PNone) of
                Inl e \<Rightarrow> (Inl e, s')
              | Inr channel \<Rightarrow>
                  (case stored_text E (dict_get generated_data (lit ''summary'') PNone) of
                     Inl e \<Rightarrow> (Inl e, s')
                   | Inr summary_text \<Rightarrow>
                       (let db_note =
                              \<lparr>note_id = next_id s, user_id = uid, youtube_url = url,
                               video_title = title, channel_name = channel,
                               summary = summary_text,
                               key_points = (if truthy kp then Some kp else None),
                               timestamps = (if truthy ts then Some ts else None),
                               duration_in_seconds = v_duration_in_seconds video,
                               thumbnail_url = v_thumbnail_url video,
                               views = v_views video, likes = v_likes video,
                               publish_date = v_publish_date video,
                               created_at = datetime_utcnow E (clock s),
                               updated_at = datetime_utcnow E (Suc (clock s))\<rparr>
                        in (case session_commit E db_note of
                              Some e \<Rightarrow> (Inl e, s')
                            | None \<Rightarrow>
                                (Inr db_note,
                                 s'\<lparr>notes_table := notes_table s @ [db_note],
                                    next_id := next_id s + 1\<rparr>)))))))"

text \<open>
  The body of the \<open>try\<close> of \<open>create_note\<close>: acquire, reject an empty or blank transcript
  with status 404, generate, validate the required fields once more, and insert the row.
\<close>

definition create_note_steps ::
  "env \<Rightarrow> world \<Rightarrow> int \<Rightarrow> pystr \<Rightarrow> (exn + Note) \<times> world" where
  "create_note_steps E s uid url =
     (case get_video_metadata_from_youtube_video_url E s url of
        (Inl e, s1) \<Rightarrow> (Inl e, s1)
      | (Inr video, s1) \<Rightarrow>
          (let subtitle = v_caption video in
           if subtitle = [] \<or> strip subtitle = []
           then (Inl (HTTPException 404 no_captions_detail), s1)
           else
             (case generate_note_with_gemini E s1 subtitle url (v_title video)
                     (v_channel_name video) of
                (Inl e, s2) \<Rightarrow> (Inl e, s2)
              | (Inr generated_data, s2) \<Rightarrow>
                  (let ms = missing_fields generated_data in
                   if ms \<noteq> []
                   then (Inl (HTTPException 500 (create_missing_detail ms)), s2)
                   else persist_note E s2 uid url generated_data video))))"

text \<open>
  \<open>NoteService.create_note\<close>. A row of the same user and URL is returned at once. After
  that, an \<open>HTTPException\<close> of the body is raised again as it is and every other exception
  becomes status 500 with the prefixed \<open>str(e)\<close>.
\<close>

definition create_note :: "env \<Rightarrow> world \<Rightarrow> int \<Rightarrow> pystr \<Rightarrow> (exn + Note) \<times> world" where
  "create_note E s uid url =
     (case find (\<lambda>n. user_id n = uid \<and> youtube_url n = url) (notes_table s) of
        Some existing_note \<Rightarrow> (Inr existing_note, s)
      | None \<Rightarrow>
          (case create_note_steps E s uid url of
             (Inr db_note, s') \<Rightarrow> (Inr db_note, s')
           | (Inl (HTTPException c d), s') \<Rightarrow> (Inl (HTTPException c d), s')
           | (Inl e, s') \<Rightarrow>
               (Inl (HTTPException 500 (lit ''Failed to create note: '' @ str_of_exn E e)), s')))"

text \<open>\<open>str(i)\<close> of an integer, for the detail of the 404 error.\<close>

fun nat_digits :: "nat \<Rightarrow> pystr" where
  "nat_digits n = (if n < 10 then [48 + n] else nat_digits (n div 10) @ [48 + n mod 10])"

declare nat_digits.simps [simp del]

definition str_of_int :: "int \<Rightarrow> pystr" where
  "str_of_int i = (if i < 0 then 45 # nat_digits (nat (- i)) else nat_digits (nat i))"

text \<open>\<open>NoteService._get_note_by_id\<close>: the row of that key, 404 without it, 403 for another user.\<close>

definition get_note_by_id :: "world \<Rightarrow> int \<Rightarrow> int \<Rightarrow> exn + Note" where
  "get_note_by_id s nid uid =
     (case find (\<lambda>n. note_id n = nid) (notes_table s) of
        None \<Rightarrow>
          Inl (HTTPException 404 (lit ''Note with ID '' @ str_of_int nid @ lit '' not found''))
      | Some n \<Rightarrow>
          if user_id n \<noteq> uid
          then Inl (HTTPException 403
                 (lit ''You don'' @ [39] @ lit ''t have permission to access this note''))
          else Inr n)"

text \<open>
  A \<open>NoteUpdate\<close> after \<open>model_dump(exclude_unset=True)\<close>: for every field, \<open>None\<close> when the
  request did not set it, \<open>Some None\<close> when it set it to null, \<open>Some (Some v)\<close> otherwise.
\<close>

record NoteUpdate =
  u_video_title :: "pystr option option"
  u_channel_name :: "pystr option option"
  u_summary :: "pystr option option"
  u_key_points :: "pystr list option option"
  u_timestamps :: "(pystr \<times> pyval) list list option option"
  u_duration_in_seconds :: "int option option"
  u_thumbnail_url :: "pystr option option"
  u_views :: "int option option"
  u_likes :: "int option option"
  u_publish_date :: "int option option"

text \<open>\<open>setattr\<close> for the fields of the update, by the type of the column.\<close>

definition set_text :: "pystr option option \<Rightarrow> pyval \<Rightarrow> pyval" where
  "set_text u old = (case u of None \<Rightarrow> old | Some None \<Rightarrow> PNone | Some (Some t) \<Rightarrow> PStr t)"

definition set_json :: "'a option option \<Rightarrow> ('a \<Rightarrow> pyval) \<Rightarrow> pyval option \<Rightarrow> pyval option" where
  "set_json u enc old = (case u of None \<Rightarrow> old | Some None \<Rightarrow> None | Some (Some v) \<Rightarrow> Some (enc v))"

definition set_attr :: "'a option option \<Rightarrow> 'a option \<Rightarrow> 'a option" where
  "set_attr u old = (case u of None \<Rightarrow> old | Some v \<Rightarrow> v)"

text \<open>
  \<open>NoteService.update_note\<close>: every field the request set is assigned, the two list fields
  serialised, \<open>updated_at\<close> is read from the clock and the row is saved under its primary
  key when the commit succeeds. No field is validated; the exception of a failing commit
  is raised as it is.
\<close>

definition update_note ::
  "env \<Rightarrow> world \<Rightarrow> int \<Rightarrow> int \<Rightarrow> NoteUpdate \<Rightarrow> (exn + Note) \<times> world" where
  "update_note E s nid uid note_data =
     (case get_note_by_id s nid uid of
        Inl e \<Rightarrow> (Inl e, s)
      | Inr n \<Rightarrow>
          (let n' = n\<lparr>video_title := set_text (u_video_title note_data) (video_title n),
                      channel_name := set_text (u_channel_name note_data) (channel_name n),
                      summary := set_text (u_summary note_data) (summary n),
                      key_points :=
                        set_json (u_key_points note_data) (\<lambda>ks. PList (map PStr ks)) (key_points n),
                      timestamps :=
                        set_json (u_timestamps note_data) (\<lambda>ts. PList (map PDict ts)) (timestamps n),
                      duration_in_seconds :=
                        set_attr (u_duration_in_seconds note_data) (duration_in_seconds n),
                      thumbnail_url := set_attr (u_thumbnail_url note_data) (thumbnail_url n),
                      views := set_attr (u_views note_data) (views n),
                      likes := set_attr (u_likes note_data) (likes n),
                      publish_date := set_attr (u_publish_date note_data) (publish_date n),
                      updated_at := datetime_utcnow E (clock s)\<rparr>;
               s' = s\<lparr>clock := Suc (clock s)\<rparr>
           in (case session_commit E n' of
                 Some e \<Rightarrow> (Inl e, s')
               | None \<Rightarrow>
                   (Inr n',
                    s'\<lparr>notes_table :=
                         map (\<lambda>m. if note_id m = nid then n' else m) (notes_table s)\<rparr>))))"

section \<open>Statements about the required fields and stored rows\<close>

text \<open>The five required fields, in the order in which the service tests them.\<close>

definition required_fields :: "pystr list" where
  "required_fields =
     [lit ''video_title'', lit ''channel_name'', lit ''summary'', lit ''key_points'',
      lit ''timestamps'']"

text \<open>
  The words of the specification for a field that is missing. A narrative field is
  missing when its value is empty or blank after trimming; a value that is not a string
  is empty when it is \<open>None\<close>, \<open>False\<close>, zero or an empty container. A list field is missing
  when its value is not a non-empty list.
\<close>

definition empty_or_blank :: "pyval \<Rightarrow> bool" where
  "empty_or_blank v =
     (case v of
        PNone \<Rightarrow> True
      | PBool b \<Rightarrow> \<not> b
      | PInt i \<Rightarrow> i = 0
      | PFloat m e \<Rightarrow> m = 0
      | PNonFinite \<Rightarrow> False
      | PStr t \<Rightarrow> strip t = []
      | PList xs \<Rightarrow> xs = []
      | PDict kvs \<Rightarrow> kvs = [])"

definition nonempty_list :: "pyval \<Rightarrow> bool" where
  "nonempty_list v = (case v of PList xs \<Rightarrow> xs \<noteq> [] | _ \<Rightarrow> False)"

definition field_missing :: "(pystr \<times> pyval) list \<Rightarrow> pystr \<Rightarrow> bool" where
  "field_missing r f \<longleftrightarrow>
     (if f = lit ''key_points'' \<or> f = lit ''timestamps''
      then \<not> nonempty_list (dict_get r f (PList []))
      else empty_or_blank (dict_get r f PNone))"

text \<open>
  The invariant of the specification for one row: title, channel and summary neither
  empty nor blank, \<open>key_points\<close> and \<open>timestamps\<close> the text of a non-empty list.
\<close>

definition note_complete :: "Note \<Rightarrow> bool" where
  "note_complete n \<longleftrightarrow>
     \<not> empty_or_blank (video_title n) \<and> \<not> empty_or_blank (channel_name n) \<and>
     \<not> empty_or_blank (summary n) \<and>
     (case key_points n of None \<Rightarrow> False | Some v \<Rightarrow> nonempty_list v) \<and>
     (case timestamps n of None \<Rightarrow> False | Some v \<Rightarrow> nonempty_list v)"

text \<open>
  The database driver never stores a text that is empty or blank for a value that is not
  a string: what it adapts (a number, a truth value, an array) has a text of its own.
\<close>

definition adapts_to_text :: "env \<Rightarrow> bool" where
  "adapts_to_text E \<longleftrightarrow> (\<forall>v v'. db_adapt E v = Inr v' \<longrightarrow> \<not> empty_or_blank v')"

text \<open>
  A request to \<open>update_note\<close> that sets a required field to null, to an empty or blank
  text or to an empty list.
\<close>

definition blanks_a_field :: "NoteUpdate \<Rightarrow> bool" where
  "blanks_a_field u \<longleftrightarrow>
     (case u_video_title u of None \<Rightarrow> False | Some None \<Rightarrow> True | Some (Some t) \<Rightarrow> strip t = []) \<or>
     (case u_channel_name u of None \<Rightarrow> False | Some None \<Rightarrow> True | Some (Some t) \<Rightarrow> strip t = []) \<or>
     (case u_summary u of None \<Rightarrow> False | Some None \<Rightarrow> True | Some (Some t) \<Rightarrow> strip t = []) \<or>
     (case u_key_points u of None \<Rightarrow> False | Some None \<Rightarrow> True | Some (Some ks) \<Rightarrow> ks = []) \<or>
     (case u_timestamps u of None \<Rightarrow> False | Some None \<Rightarrow> True | Some (Some ts) \<Rightarrow> ts = [])"

text \<open>A result with a blank summary and no key points.\<close>

definition sparse_result :: "(pystr \<times> pyval) list" where
  "sparse_result =
     [(lit ''video_title'', PStr (lit ''T'')),
      (lit ''channel_name'', PStr (lit ''C'')),
      (lit ''summary'', PStr (lit ''  '')),
      (lit ''key_points'', PList []),
      (lit ''timestamps'', PList [PDict []])]"

section \<open>A concrete environment\<close>

text \<open>
  Collaborators for the concrete runs below. \<open>str(e)\<close> of an \<open>HTTPException\<close> is
  Starlette's \<open>status: detail\<close>. The video has no caption track and an audio stream, every
  file operation succeeds, the transcription returns two words, the model answers with
  text that is not JSON, the clock shows the number of its readings, the database
  driver stores an integer as its decimal text and adapts no other value that is not a
  string, and every commit succeeds.
\<close>

definition sample_video :: yt_video where
  "sample_video =
     \<lparr>yt_captions = Inr [],
      yt_audio_only = Inr (Some (lit ''talk.m4a'')),
      yt_info = Inr \<lparr>i_title = lit ''A talk'', i_author = lit ''A channel'',
                      i_length = Some 60, i_thumbnail_url = None, i_views = Some 10,
                      i_likes = None, i_publish_date = None\<rparr>\<rparr>"

definition sample_env :: env where
  "sample_env =
     \<lparr>str_of_exn =
        (\<lambda>e. case e of
               HTTPException c d \<Rightarrow> str_of_int (int c) @ lit '': '' @ d
             | LibraryError m \<Rightarrow> m
             | _ \<Rightarrow> []),
      et_fromstring = (\<lambda>x. Inl ParseError),
      prompt_template = (\<lambda>title channel url subtitle. subtitle),
      gemini_generate_content = (\<lambda>prompt. Inr (Some (lit ''no json''))),
      json_loads = (\<lambda>x. Inl JSONDecodeError),
      pytube_YouTube = (\<lambda>url. Inr sample_video),
      requests_get = (\<lambda>url. Inl (LibraryError (lit ''timeout''))),
      backend_dir = lit ''/srv/backend'',
      os_makedirs = (\<lambda>p. None),
      stream_download = (\<lambda>p. None),
      audio_from_file = (\<lambda>p. None),
      audio_export = (\<lambda>p. None),
      deepgram_transcribe = (\<lambda>p. Inr (lit ''spoken words'')),
      datetime_utcnow = int,
      db_adapt =
        (\<lambda>v. case v of
               PInt i \<Rightarrow> Inr (PStr (str_of_int i))
             | _ \<Rightarrow> Inl (LibraryError (lit ''can not adapt''))),
      session_commit = (\<lambda>n. None)\<rparr>"

text \<open>The state before the first request: no rows, no files, no calls.\<close>

definition empty_world :: world where
  "empty_world = \<lparr>notes_table = [], next_id = 1, files = {}, calls = [], clock = 0\<rparr>"

definition sample_url :: pystr where
  "sample_url = lit ''https://www.youtube.com/watch?v=abc''"

section \<open>Statements about the state\<close>

text \<open>A call to the generative model, among the service calls.\<close>

fun is_gemini_call :: "call \<Rightarrow> bool" where
  "is_gemini_call (CallGemini p) = True"
| "is_gemini_call c = False"

text \<open>
  Two states with the same table, the same next key, the same clock and the same calls to
  the generative model: what acquisition leaves alone.
\<close>

definition same_rows :: "world \<Rightarrow> world \<Rightarrow> bool" where
  "same_rows s s' \<longleftrightarrow>
     notes_table s' = notes_table s \<and> next_id s' = next_id s \<and> clock s' = clock s \<and>
     filter is_gemini_call (calls s') = filter is_gemini_call (calls s)"

text \<open>
  The normalised file of the sample video, the row that the sample environment creates
  for it, the state with that row, and a request that sets the summary to the empty
  string.
\<close>

definition sample_wav :: pystr where
  "sample_wav = lit ''/srv/backend/temp_audio_files/abc.wav''"

definition sample_note :: Note where
  "sample_note =
     \<lparr>note_id = 1, user_id = 1, youtube_url = sample_url,
      video_title = PStr (lit ''A talk''), channel_name = PStr (lit ''A channel''),
      summary = PStr (lit ''no json''),
      key_points = Some (PList [PStr (lit ''Key point extracted from video'')]),
      timestamps =
        Some (PList
          [PDict
             [(lit ''time'', PStr (lit ''00:00'')),
              (lit ''description'',
                 PStr (lit ''Video content extracted (parsing failed, using fallback)''))]]),
      duration_in_seconds = Some 60, thumbnail_url = None, views = Some 10, likes = None,
      publish_date = None, created_at = 0, updated_at = 1\<rparr>"

definition sample_world :: world where
  "sample_world =
     \<lparr>notes_table = [sample_note], next_id = 2, files = {},
      calls = [CallYouTube sample_url, CallYouTube sample_url, CallDeepgram sample_wav,
               CallGemini (lit ''spoken words'')],
      clock = 2\<rparr>"

definition blank_summary_update :: NoteUpdate where
  "blank_summary_update =
     \<lparr>u_video_title = None, u_channel_name = None, u_summary = Some (Some []),
      u_key_points = None, u_timestamps = None, u_duration_in_seconds = None,
      u_thumbnail_url = None, u_views = None, u_likes = None, u_publish_date = None\<rparr>"

text \<open>
  A parsed response with every required field but an empty list of key points, and an
  environment whose transcription service raises.
\<close>

definition no_key_points_object :: "(pystr \<times> pyval) list" where
  "no_key_points_object =
     [(lit ''video_title'', PStr (lit ''A talk'')),
      (lit ''channel_name'', PStr (lit ''A channel'')),
      (lit ''summary'', PStr (lit ''About talking'')),
      (lit ''key_points'', PList []),
      (lit ''timestamps'', PList [PDict [(lit ''time'', PStr (lit ''00:10''))]])]"

definition failing_transcription_env :: env where
  "failing_transcription_env =
     sample_env\<lparr>deepgram_transcribe := (\<lambda>p. Inl (LibraryError (lit ''boom'')))\<rparr>"

section \<open>Verified properties\<close>

subsection \<open>Caption parser\<close>

text \<open>
  C6 (as amended): for every input string, also malformed markup and the empty string,
  the caption parser returns a string and never raises. When the XML parser fails with a
  parse error, the result is the joined and normalised text of the regular expression's
  matches, and the input itself when there is no match. When the XML parser fails with
  any other exception, the result is the input itself and the regular expression is not
  tried.
\<close>

theorem caption_parser_never_raises:
  "(\<exists>out. extract_text_from_xml_transcript fromstring x = Inr out) \<and>
   (fromstring x = Inl ParseError \<longrightarrow> re_findall_text x \<noteq> [] \<longrightarrow>
      extract_text_from_xml_transcript fromstring x =
        Inr (strip (re_sub_spaces (join (lit '' '') (map strip (re_findall_text x)))))) \<and>
   (fromstring x = Inl ParseError \<longrightarrow> re_findall_text x = [] \<longrightarrow>
      extract_text_from_xml_transcript fromstring x = Inr x) \<and>
   (\<forall>e. fromstring x = Inl e \<longrightarrow> e \<noteq> ParseError \<longrightarrow>
      extract_text_from_xml_transcript fromstring x = Inr x)"
proof (cases "fromstring x")
  case (Inl e)
  then show ?thesis
    by (cases e) (simp_all add: extract_text_from_xml_transcript_def Let_def)
next
  case (Inr root)
  then show ?thesis
    by (simp add: extract_text_from_xml_transcript_def)
qed

theorem caption_parser_never_raises_witness:
  \<open>extract_text_from_xml_transcript (\<lambda>_. Inl ParseError) (lit ''<text start="0">Hi  there</text><b'')
     = Inr (lit ''Hi there'') \<and>
   extract_text_from_xml_transcript (\<lambda>_. Inl ParseError) (lit ''no tags <'') = Inr (lit ''no tags <'') \<and>
   extract_text_from_xml_transcript (\<lambda>_. Inl ParseError) [] = Inr [] \<and>
   extract_text_from_xml_transcript (\<lambda>_. Inl (LibraryError (lit ''UnicodeEncodeError'')))
     (55296 # lit ''<text>a</text>'') = Inr (55296 # lit ''<text>a</text>'')\<close>
proof -
  have m1: \<open>re_findall_text (lit ''<text start="0">Hi  there</text><b'') = [lit ''Hi  there'']\<close>
    by (simp add: lit_def match_text_tag_def startswith_def)
  have m2: \<open>re_findall_text (lit ''no tags <'') = []\<close>
    by (simp add: lit_def match_text_tag_def startswith_def)
  have n1: \<open>strip (re_sub_spaces (strip (lit ''Hi  there''))) = lit ''Hi there''\<close>
    by (simp add: lit_def strip_def isspace_def)
  show ?thesis
    using caption_parser_never_raises
            [of "\<lambda>_. Inl ParseError" \<open>lit ''<text start="0">Hi  there</text><b''\<close>]
          caption_parser_never_raises [of "\<lambda>_. Inl ParseError" \<open>lit ''no tags <''\<close>]
          caption_parser_never_raises [of "\<lambda>_. Inl ParseError" "[]"]
          caption_parser_never_raises
            [of "\<lambda>_. Inl (LibraryError (lit ''UnicodeEncodeError''))"
                \<open>55296 # lit ''<text>a</text>''\<close>]
    by (simp add: m1 m2 n1)
qed

text \<open>
  The claim as stated fails when the XML parser fails with an exception that is not a
  parse error. A string with the lone surrogate U+D800 before \<open><text>a</text>\<close> cannot be
  encoded for the parser, which raises \<open>UnicodeEncodeError\<close>: the regular expression
  would extract \<open>a\<close>, but the handler for other exceptions returns the input.
\<close>

theorem caption_parser_other_failure_counterexample:
  "re_findall_text (55296 # lit ''<text>a</text>'') = [lit ''a''] \<and>
   strip (re_sub_spaces (join (lit '' '') (map strip [lit ''a'']))) = lit ''a'' \<and>
   extract_text_from_xml_transcript (\<lambda>x. Inl (LibraryError (lit ''UnicodeEncodeError'')))
     (55296 # lit ''<text>a</text>'') = Inr (55296 # lit ''<text>a</text>'') \<and>
   55296 # lit ''<text>a</text>'' \<noteq> lit ''a''"
  by (simp add: extract_text_from_xml_transcript_def lit_def match_text_tag_def startswith_def
        strip_def isspace_def)

subsection \<open>White space normal form\<close>

lemma split_ws_Nil [simp]: "split_ws [] = []"
  by (simp add: split_ws.simps)

lemma split_ws_space [simp]: "isspace c \<Longrightarrow> split_ws (c # s) = split_ws s"
  by (subst split_ws.simps, subst (2) split_ws.simps) simp

lemma split_ws_dropWhile [simp]: "split_ws (dropWhile isspace s) = split_ws s"
  by (induction s) simp_all

lemma split_ws_all_space: "\<forall>c\<in>set s. isspace c \<Longrightarrow> split_ws s = []"
  by (induction s) simp_all

lemma split_ws_word:
  "\<not> isspace c \<Longrightarrow>
   split_ws (c # s) = (c # takeWhile (\<lambda>c. \<not> isspace c) s) # split_ws (dropWhile (\<lambda>c. \<not> isspace c) s)"
  by (subst split_ws.simps) simp

lemma split_ws_append_space:
  "isspace c \<Longrightarrow> split_ws (a @ c # b) = split_ws a @ split_ws b"
proof (induction a rule: length_induct)
  case (1 a)
  show ?case
  proof (cases a)
    case Nil
    with 1 show ?thesis by simp
  next
    case (Cons x xs)
    show ?thesis
    proof (cases "isspace x")
      case True
      with 1 Cons show ?thesis by simp
    next
      case False
      let ?w = "takeWhile (\<lambda>c. \<not> isspace c) xs"
      let ?r = "dropWhile (\<lambda>c. \<not> isspace c) xs"
      have xs: "xs = ?w @ ?r" by simp
      have tw: "takeWhile (\<lambda>c. \<not> isspace c) (xs @ c # b) = ?w"
        using 1(2) by (induction xs) auto
      have dw: "dropWhile (\<lambda>c. \<not> isspace c) (xs @ c # b) = ?r @ c # b"
        using 1(2) by (induction xs) auto
      have "length ?r < length a" using Cons
        by (simp add: length_dropWhile_le less_Suc_eq_le)
      with 1 have ih: "split_ws (?r @ c # b) = split_ws ?r @ split_ws b" by blast
      show ?thesis
        using False Cons ih by (simp add: split_ws_word tw dw)
    qed
  qed
qed

lemma split_ws_append_spaces:
  "\<forall>c\<in>set ws. isspace c \<Longrightarrow> split_ws (a @ ws) = split_ws a"
proof (induction ws arbitrary: a)
  case Nil
  then show ?case by simp
next
  case (Cons c ws)
  then show ?case
    by (simp add: split_ws_append_space split_ws_all_space)
qed

lemma rstrip_decomp:
  "\<exists>ws. (\<forall>c\<in>set ws. isspace c) \<and> s = rev (dropWhile isspace (rev s)) @ ws"
proof -
  have "rev s = takeWhile isspace (rev s) @ dropWhile isspace (rev s)" by simp
  then have "s = rev (dropWhile isspace (rev s)) @ rev (takeWhile isspace (rev s))"
    by (metis rev_append rev_rev_ident)
  moreover have "\<forall>c\<in>set (rev (takeWhile isspace (rev s))). isspace c"
    by (auto dest: set_takeWhileD)
  ultimately show ?thesis by blast
qed

lemma split_ws_strip [simp]: "split_ws (strip s) = split_ws s"
proof -
  obtain ws where ws: "\<forall>c\<in>set ws. isspace c"
    and d: "dropWhile isspace s = rev (dropWhile isspace (rev (dropWhile isspace s))) @ ws"
    using rstrip_decomp [of "dropWhile isspace s"] by blast
  have "split_ws (dropWhile isspace s) = split_ws (strip s)"
    using split_ws_append_spaces [OF ws, of "strip s"] d by (simp add: strip_def)
  then show ?thesis by simp
qed

lemma split_ws_join_gen:
  "sep = [c] \<Longrightarrow> isspace c \<Longrightarrow> split_ws (join sep xs) = concat (map split_ws xs)"
  by (induction sep xs rule: join.induct) (simp_all add: split_ws_append_space)

lemma split_ws_join:
  "split_ws (join (lit '' '') xs) = concat (map split_ws xs)"
  by (rule split_ws_join_gen [of _ 32]) (simp_all add: lit_def isspace_def)

lemma join_Cons: "join sep (x # xs) = (if xs = [] then x else x @ sep @ join sep xs)"
  by (cases xs) simp_all

lemma rstrip_append:
  "rev (dropWhile isspace (rev (a @ b))) =
     (if \<forall>c\<in>set b. isspace c then rev (dropWhile isspace (rev a))
      else a @ rev (dropWhile isspace (rev b)))"
  by (simp add: dropWhile_append)

lemma rstrip_word:
  "\<forall>c\<in>set w. \<not> isspace c \<Longrightarrow> rev (dropWhile isspace (rev w)) = w"
proof (cases "rev w")
  case Nil
  then show ?thesis by simp
next
  case (Cons x xs)
  assume "\<forall>c\<in>set w. \<not> isspace c"
  moreover have "x \<in> set w" using Cons by (metis list.set_intros(1) set_rev)
  ultimately have "\<not> isspace x" by blast
  with Cons have "dropWhile isspace (rev w) = rev w" by simp
  then show ?thesis by simp
qed

lemma re_sub_spaces_word:
  "\<forall>c\<in>set w. \<not> isspace c \<Longrightarrow> re_sub_spaces (w @ r) = w @ re_sub_spaces r"
  by (induction w) simp_all

lemma re_sub_spaces_head:
  "t = [] \<or> \<not> isspace (hd t) \<Longrightarrow> dropWhile isspace (re_sub_spaces t) = re_sub_spaces t"
  by (cases t) auto

lemma head_dropWhile_space:
  "dropWhile isspace s = [] \<or> \<not> isspace (hd (dropWhile isspace s))"
  using hd_dropWhile [of isspace s] by blast

lemma re_sub_spaces_lstrip:
  "dropWhile isspace (re_sub_spaces s) = re_sub_spaces (dropWhile isspace s)"
proof (cases s)
  case Nil
  then show ?thesis by simp
next
  case (Cons c cs)
  show ?thesis
  proof (cases "isspace c")
    case True
    have "isspace 32" by (simp add: isspace_def)
    with True Cons show ?thesis
      using re_sub_spaces_head [OF head_dropWhile_space [of cs]] by simp
  next
    case False
    with Cons show ?thesis by simp
  qed
qed

lemma rstrip_re_sub_spaces:
  "t = [] \<or> \<not> isspace (hd t) \<Longrightarrow>
   rev (dropWhile isspace (rev (re_sub_spaces t))) = join (lit '' '') (split_ws t)"
proof (induction t rule: length_induct)
  case (1 t)
  show ?case
  proof (cases t)
    case Nil
    then show ?thesis by simp
  next
    case (Cons c cs)
    with 1(2) have c: "\<not> isspace c" by simp
    let ?w = "c # takeWhile (\<lambda>c. \<not> isspace c) cs"
    let ?r = "dropWhile (\<lambda>c. \<not> isspace c) cs"
    have w: "\<forall>x\<in>set ?w. \<not> isspace x" using c by (auto dest: set_takeWhileD)
    have t: "t = ?w @ ?r" using Cons by simp
    have R: "re_sub_spaces t = ?w @ re_sub_spaces ?r"
      using re_sub_spaces_word [OF w, of ?r] t by simp
    have S: "split_ws t = ?w # split_ws ?r"
      using Cons c by (simp add: split_ws_word)
    have sp: "lit '' '' = [32]" by (simp add: lit_def)
    have s32: "isspace 32" by (simp add: isspace_def)
    show ?thesis
    proof (cases ?r)
      case Nil
      have "re_sub_spaces t = ?w"
        by (simp only: R Nil re_sub_spaces.simps append_Nil2)
      moreover have "split_ws t = [?w]"
        by (simp only: S Nil split_ws_Nil)
      ultimately show ?thesis
        by (simp only: rstrip_word [OF w] join.simps)
    next
      case r: (Cons d ds)
      have d: "isspace d"
        using hd_dropWhile [of "\<lambda>c. \<not> isspace c" cs] r by simp
      let ?t' = "dropWhile isspace ds"
      have Rr: "re_sub_spaces ?r = 32 # re_sub_spaces ?t'" using r d by simp
      have Sr: "split_ws ?r = split_ws ?t'" using r d by simp
      have len: "length ?t' < length t"
      proof -
        have "length ?t' \<le> length ds" by (rule length_dropWhile_le)
        also have "\<dots> < length ?r" using r by simp
        also have "\<dots> \<le> length cs" by (rule length_dropWhile_le)
        also have "\<dots> < length t" using Cons by simp
        finally show ?thesis .
      qed
      have hd': "?t' = [] \<or> \<not> isspace (hd ?t')" by (rule head_dropWhile_space)
      from 1(1) len hd'
      have ih: "rev (dropWhile isspace (rev (re_sub_spaces ?t'))) = join (lit '' '') (split_ws ?t')"
        by blast
      show ?thesis
      proof (cases ?t')
        case Nil
        have a: "re_sub_spaces t = ?w @ [32]"
          by (simp only: R Rr Nil re_sub_spaces.simps)
        have b: "split_ws t = [?w]"
          by (simp only: S Sr Nil split_ws_Nil)
        have "rev (dropWhile isspace (rev (?w @ [32]))) = rev (dropWhile isspace (rev ?w))"
          using s32 by (subst rstrip_append) simp
        then show ?thesis
          by (simp only: a b rstrip_word [OF w] join.simps)
      next
        case t': (Cons e es)
        with hd' have e: "\<not> isspace e" by simp
        have ne: "split_ws ?t' \<noteq> []" using t' e by (simp add: split_ws_word)
        have nsp: "\<not> (\<forall>x\<in>set (32 # re_sub_spaces ?t'). isspace x)"
          using t' e by auto
        have nsp': "\<not> (\<forall>x\<in>set (re_sub_spaces ?t'). isspace x)"
          using t' e by auto
        have e1: "rev (dropWhile isspace (rev (?w @ 32 # re_sub_spaces ?t')))
                    = ?w @ rev (dropWhile isspace (rev (32 # re_sub_spaces ?t')))"
          using nsp by (simp only: rstrip_append [of ?w "32 # re_sub_spaces ?t'"] if_False)
        have e2: "rev (dropWhile isspace (rev ([32] @ re_sub_spaces ?t')))
                    = [32] @ rev (dropWhile isspace (rev (re_sub_spaces ?t')))"
          using nsp' by (simp only: rstrip_append [of "[32]" "re_sub_spaces ?t'"] if_False)
        have e3: "rev (dropWhile isspace (rev (32 # re_sub_spaces ?t')))
                    = 32 # rev (dropWhile isspace (rev (re_sub_spaces ?t')))"
          using e2 by (simp only: append_Cons append_Nil)
        have "rev (dropWhile isspace (rev (re_sub_spaces t)))
                = ?w @ 32 # rev (dropWhile isspace (rev (re_sub_spaces ?t')))"
          by (simp only: R Rr e1 e3)
        also have "\<dots> = ?w @ 32 # join (lit '' '') (split_ws ?t')"
          by (simp only: ih)
        also have "\<dots> = join (lit '' '') (split_ws t)"
          using ne by (simp add: S Sr join_Cons sp)
        finally show ?thesis .
      qed
    qed
  qed
qed

lemma normalise_split_ws:
  "strip (re_sub_spaces s) = join (lit '' '') (split_ws s)"
proof -
  have "strip (re_sub_spaces s)
          = rev (dropWhile isspace (rev (re_sub_spaces (dropWhile isspace s))))"
    by (simp add: strip_def re_sub_spaces_lstrip)
  also have "\<dots> = join (lit '' '') (split_ws (dropWhile isspace s))"
    by (rule rstrip_re_sub_spaces) (rule head_dropWhile_space)
  finally show ?thesis by simp
qed

lemma split_ws_text_parts:
  "concat (map split_ws (text_parts es)) = concat (map split_ws (map text_or_empty es))"
  by (induction es) (simp_all add: text_or_empty_def split: option.splits)

lemma normalise_text_parts:
  "strip (re_sub_spaces (join (lit '' '') (text_parts es))) =
   strip (re_sub_spaces (join (lit '' '') (map text_or_empty es)))"
  by (simp only: normalise_split_ws split_ws_join split_ws_text_parts)

text \<open>
  What the parser computes from a tree: the normalised join of the leading texts of the
  \<open><text>\<close> elements below the root. The markup of the specification's scenario has two
  top-level elements, so the XML parser rejects it and the regular expression yields
  \<open>Hello world\<close>.
\<close>

lemma caption_parser_below_root:
  \<open>(fromstring x = Inr root \<longrightarrow>
      extract_text_from_xml_transcript fromstring x =
        Inr (strip (re_sub_spaces (join (lit '' '')
               (map text_or_empty (findall_text root)))))) \<and>
    (fromstring (lit ''<text start="0">Hello</text><text start="1">world</text>'') = Inl ParseError \<longrightarrow>
      extract_text_from_xml_transcript fromstring
        (lit ''<text start="0">Hello</text><text start="1">world</text>'') = Inr (lit ''Hello world''))\<close>
proof (intro conjI impI)
  assume "fromstring x = Inr root"
  then show "extract_text_from_xml_transcript fromstring x =
        Inr (strip (re_sub_spaces (join (lit '' '')
               (map text_or_empty (findall_text root)))))"
    by (simp add: extract_text_from_xml_transcript_def normalise_text_parts)
next
  assume \<open>fromstring (lit ''<text start="0">Hello</text><text start="1">world</text>'') = Inl ParseError\<close>
  then show \<open>extract_text_from_xml_transcript fromstring
        (lit ''<text start="0">Hello</text><text start="1">world</text>'') = Inr (lit ''Hello world'')\<close>
    by (simp add: extract_text_from_xml_transcript_def lit_def match_text_tag_def
          startswith_def strip_def isspace_def)
qed

lemma caption_parser_transcript_doc:
  \<open>extract_text_from_xml_transcript (\<lambda>_. Inr transcript_doc) (lit ''<transcript/>'')
     = Inr (lit ''Hello big world'') \<and>
   spec_caption_text transcript_doc = lit ''Hello big world''\<close>
proof -
  have "strip (re_sub_spaces (join (lit '' '') (map text_or_empty (findall_text transcript_doc))))
          = lit ''Hello big world''"
    by (simp add: transcript_doc_def findall_text_def text_or_empty_def lit_def strip_def
          isspace_def)
  moreover have "spec_caption_text transcript_doc = lit ''Hello big world''"
    by (simp add: transcript_doc_def spec_caption_text_def lit_def strip_def isspace_def)
  ultimately show ?thesis
    using caption_parser_below_root
            [of "\<lambda>_. Inr transcript_doc" "lit ''<transcript/>''" transcript_doc]
    by simp
qed

lemma caption_parser_root_without_children:
  "fromstring x = Inr (Element t a u [] y) \<Longrightarrow>
   extract_text_from_xml_transcript fromstring x = Inr []"
  by (simp add: extract_text_from_xml_transcript_def findall_text_def strip_def)

text \<open>
  C5: a run on the well-formed document \<open><text start="0">Hello</text>\<close>, whose root is
  itself a \<open><text>\<close> element. The text content of its only \<open><text>\<close> element is \<open>Hello\<close>,
  and that is what the specification's words give. The parser searches below the root
  only and returns the empty string. The regular expression of the fallback path does
  find \<open>Hello\<close> in the same markup, and with a second top-level element, which the XML
  parser rejects, the result is \<open>Hello world\<close>.
\<close>

theorem caption_parser_skips_root_text:
  \<open>extract_text_from_xml_transcript (\<lambda>x. Inr root_text_doc) (lit ''<text start="0">Hello</text>'')
     = Inr [] \<and>
   spec_caption_text root_text_doc = lit ''Hello'' \<and>
   lit ''Hello'' \<noteq> [] \<and>
   re_findall_text (lit ''<text start="0">Hello</text>'') = [lit ''Hello''] \<and>
   extract_text_from_xml_transcript (\<lambda>x. Inl ParseError)
     (lit ''<text start="0">Hello</text><text start="1">world</text>'') = Inr (lit ''Hello world'')\<close>
  by (simp add: extract_text_from_xml_transcript_def findall_text_def spec_caption_text_def
        root_text_doc_def match_text_tag_def startswith_def lit_def strip_def isspace_def)

subsection \<open>Note generator\<close>

lemma lit_eq_iff [simp]: "lit a = lit b \<longleftrightarrow> a = b"
  by (simp add: lit_def inj_map_eq_map [OF inj_of_char])

lemma field_blank_iff: "field_blank v \<longleftrightarrow> empty_or_blank v"
  by (cases v) (auto simp: field_blank_def empty_or_blank_def strip_def)

lemma not_nonempty_list_iff: "not_nonempty_list v \<longleftrightarrow> \<not> nonempty_list v"
  by (cases v) (simp_all add: not_nonempty_list_def nonempty_list_def)

lemma missing_fields_filter:
  "missing_fields r = filter (field_missing r) required_fields"
  by (simp add: missing_fields_def required_fields_def field_missing_def Let_def
        field_blank_iff not_nonempty_list_iff)

lemma structure_result_get:
  "dict_get (structure_result d title channel) (lit ''video_title'') dflt =
     dict_get d (lit ''video_title'') (PStr title)"
  "dict_get (structure_result d title channel) (lit ''channel_name'') dflt =
     dict_get d (lit ''channel_name'') (PStr channel)"
  "dict_get (structure_result d title channel) (lit ''summary'') dflt =
     dict_get d (lit ''summary'') (PStr [])"
  "dict_get (structure_result d title channel) (lit ''key_points'') dflt =
     (if is_list (dict_get d (lit ''key_points'') (PList []))
      then dict_get d (lit ''key_points'') (PList []) else PList [])"
  "dict_get (structure_result d title channel) (lit ''timestamps'') dflt =
     (if is_list (dict_get d (lit ''timestamps'') (PList []))
      then dict_get d (lit ''timestamps'') (PList []) else PList [])"
  by (simp_all add: structure_result_def Let_def dict_get_def)

lemma nonempty_list_coerced:
  "nonempty_list (if is_list v then v else PList []) = nonempty_list v"
  by (cases v) (simp_all add: nonempty_list_def)

text \<open>
  C3: the generator's validation collects the missing required fields, all of them and
  no field that is present, in the order of the tests. When at least one is missing it
  fails with status 500 and the detail \<open>Failed to generate complete note. Missing required
  fields: \<close> followed by exactly these names, separated by a comma and a space, and the
  advice to try again; when none is missing it returns the result. The result that is
  validated is the parsed candidate with its defaults: a field of the result is missing
  exactly when the candidate's value, or the default where the candidate has none, is
  empty, blank or not a non-empty list.
\<close>

theorem generator_validation_names_missing:
  "missing_fields r = filter (field_missing r) required_fields \<and>
   ((\<exists>f \<in> set required_fields. field_missing r f) \<longrightarrow>
      validate_result r =
        Inl (HTTPException 500
               (lit ''Failed to generate complete note. Missing required fields: '' @
                join (lit '', '') (filter (field_missing r) required_fields) @
                lit ''. Please try again or choose a different video.''))) \<and>
   ((\<forall>f \<in> set required_fields. \<not> field_missing r f) \<longrightarrow> validate_result r = Inr r) \<and>
   (parse_note_data loads title channel (strip_code_fences text0) = Inr (PDict d) \<longrightarrow>
      note_from_response loads title channel text0 =
        validate_result (structure_result d title channel)) \<and>
   (field_missing (structure_result d title channel) (lit ''video_title'') \<longleftrightarrow>
      empty_or_blank (dict_get d (lit ''video_title'') (PStr title))) \<and>
   (field_missing (structure_result d title channel) (lit ''channel_name'') \<longleftrightarrow>
      empty_or_blank (dict_get d (lit ''channel_name'') (PStr channel))) \<and>
   (field_missing (structure_result d title channel) (lit ''summary'') \<longleftrightarrow>
      empty_or_blank (dict_get d (lit ''summary'') (PStr []))) \<and>
   (field_missing (structure_result d title channel) (lit ''key_points'') \<longleftrightarrow>
      \<not> nonempty_list (dict_get d (lit ''key_points'') (PList []))) \<and>
   (field_missing (structure_result d title channel) (lit ''timestamps'') \<longleftrightarrow>
      \<not> nonempty_list (dict_get d (lit ''timestamps'') (PList [])))"
proof -
  have f: "missing_fields r = filter (field_missing r) required_fields"
    by (rule missing_fields_filter)
  have e: "(missing_fields r \<noteq> []) = (\<exists>f \<in> set required_fields. field_missing r f)"
    unfolding f by (simp add: filter_empty_conv)
  have v1: "(\<exists>f \<in> set required_fields. field_missing r f) \<longrightarrow>
      validate_result r =
        Inl (HTTPException 500
               (lit ''Failed to generate complete note. Missing required fields: '' @
                join (lit '', '') (filter (field_missing r) required_fields) @
                lit ''. Please try again or choose a different video.''))"
    using e f by (simp add: validate_result_def generator_missing_detail_def Let_def)
  have v2: "(\<forall>f \<in> set required_fields. \<not> field_missing r f) \<longrightarrow> validate_result r = Inr r"
    using e by (auto simp: validate_result_def Let_def)
  have n: "parse_note_data loads title channel (strip_code_fences text0) = Inr (PDict d) \<longrightarrow>
      note_from_response loads title channel text0 =
        validate_result (structure_result d title channel)"
    by (simp add: note_from_response_def)
  have m: "field_missing (structure_result d title channel) (lit ''video_title'') \<longleftrightarrow>
             empty_or_blank (dict_get d (lit ''video_title'') (PStr title))"
     "field_missing (structure_result d title channel) (lit ''channel_name'') \<longleftrightarrow>
             empty_or_blank (dict_get d (lit ''channel_name'') (PStr channel))"
     "field_missing (structure_result d title channel) (lit ''summary'') \<longleftrightarrow>
             empty_or_blank (dict_get d (lit ''summary'') (PStr []))"
     "field_missing (structure_result d title channel) (lit ''key_points'') \<longleftrightarrow>
             \<not> nonempty_list (dict_get d (lit ''key_points'') (PList []))"
     "field_missing (structure_result d title channel) (lit ''timestamps'') \<longleftrightarrow>
             \<not> nonempty_list (dict_get d (lit ''timestamps'') (PList []))"
    by (simp_all add: field_missing_def structure_result_get nonempty_list_coerced)
  show ?thesis
    using f v1 v2 n m by blast
qed

lemma sparse_result_missing:
  "filter (field_missing sparse_result) required_fields = [lit ''summary'', lit ''key_points'']"
  by (simp add: sparse_result_def required_fields_def field_missing_def dict_get_def
        empty_or_blank_def nonempty_list_def strip_def isspace_def lit_def)

theorem generator_validation_names_missing_witness:
  "note_from_response (\<lambda>x. Inr (PDict sparse_result)) (lit ''T'') (lit ''C'') (lit ''{}'') =
     Inl (HTTPException 500
            (lit ''Failed to generate complete note. Missing required fields: summary, key_points. Please try again or choose a different video.''))"
proof -
  have ex: "\<exists>f \<in> set required_fields. field_missing sparse_result f"
    using sparse_result_missing by (metis filter_empty_conv list.distinct(1))
  have sr: "structure_result sparse_result (lit ''T'') (lit ''C'') = sparse_result"
    by (simp add: structure_result_def sparse_result_def dict_get_def Let_def)
  have p: "parse_note_data (\<lambda>x. Inr (PDict sparse_result)) (lit ''T'') (lit ''C'')
             (strip_code_fences (lit ''{}'')) = Inr (PDict sparse_result)"
    by (simp add: parse_note_data_def)
  have j: "lit ''Failed to generate complete note. Missing required fields: '' @
             join (lit '', '') [lit ''summary'', lit ''key_points''] @
             lit ''. Please try again or choose a different video.'' =
           lit ''Failed to generate complete note. Missing required fields: summary, key_points. Please try again or choose a different video.''"
    by (simp add: lit_def)
  show ?thesis
    using generator_validation_names_missing
            [of sparse_result "\<lambda>x. Inr (PDict sparse_result)" "lit ''T''" "lit ''C''" "lit ''{}''"
                sparse_result]
          ex p
    by (simp only: sparse_result_missing sr j)
qed

lemma take_1000: "(if length r > 1000 then take 1000 r else r) = take 1000 r"
  by simp

lemma fallback_structure:
  "structure_result (fallback_fields title channel r) title channel = fallback_fields title channel r"
  by (simp add: structure_result_def fallback_fields_def dict_get_def Let_def)

lemma generate_fst:
  "fst (generate_note_with_gemini E s subtitle_text url title channel) =
     (case (case gemini_generate_content E
                   (prompt_template E (escape_braces title) (escape_braces channel)
                      (escape_braces url) (escape_braces subtitle_text)) of
              Inl e \<Rightarrow> Inl e
            | Inr None \<Rightarrow> Inl AttributeError
            | Inr (Some text0) \<Rightarrow> note_from_response (json_loads E) title channel text0) of
        Inr result \<Rightarrow> Inr result
      | Inl e \<Rightarrow> Inl (HTTPException 500 (lit ''Failed to generate note with AI: '' @ str_of_exn E e)))"
  by (simp add: generate_note_with_gemini_def Let_def split: sum.splits)

lemma generate_snd:
  "snd (generate_note_with_gemini E s subtitle_text url title channel) =
     s\<lparr>calls := calls s @
        [CallGemini (prompt_template E (escape_braces title) (escape_braces channel)
                       (escape_braces url) (escape_braces subtitle_text))]\<rparr>"
  by (simp add: generate_note_with_gemini_def Let_def split: sum.splits)

text \<open>
  C4: when the response text, stripped of code fences, is not JSON, the generator goes on
  with the fallback object: title and channel of the input, the first 1000 code points
  of that text as summary, one key point, and one timestamp whose time is \<open>00:00\<close>. Its
  key points and timestamps are never missing, and it is what the validation receives.
\<close>

theorem fallback_on_parse_failure:
  assumes "loads (strip_code_fences text0) = Inl JSONDecodeError"
  shows "parse_note_data loads title channel (strip_code_fences text0) =
           Inr (PDict (fallback_fields title channel (strip_code_fences text0))) \<and>
         dict_get (fallback_fields title channel (strip_code_fences text0))
           (lit ''video_title'') PNone = PStr title \<and>
         dict_get (fallback_fields title channel (strip_code_fences text0))
           (lit ''channel_name'') PNone = PStr channel \<and>
         dict_get (fallback_fields title channel (strip_code_fences text0))
           (lit ''summary'') PNone = PStr (take 1000 (strip_code_fences text0)) \<and>
         dict_get (fallback_fields title channel (strip_code_fences text0))
           (lit ''key_points'') PNone = PList [PStr (lit ''Key point extracted from video'')] \<and>
         dict_get (fallback_fields title channel (strip_code_fences text0))
           (lit ''timestamps'') PNone =
             PList [PDict [(lit ''time'', PStr (lit ''00:00'')),
                           (lit ''description'',
                              PStr (lit ''Video content extracted (parsing failed, using fallback)''))]] \<and>
         \<not> field_missing (fallback_fields title channel (strip_code_fences text0))
             (lit ''key_points'') \<and>
         \<not> field_missing (fallback_fields title channel (strip_code_fences text0))
             (lit ''timestamps'') \<and>
         note_from_response loads title channel text0 =
           validate_result (fallback_fields title channel (strip_code_fences text0))"
proof -
  let ?r = "strip_code_fences text0"
  have p: "parse_note_data loads title channel ?r = Inr (PDict (fallback_fields title channel ?r))"
    using assms by (simp add: parse_note_data_def fallback_note_def)
  have n: "note_from_response loads title channel text0 =
             validate_result (fallback_fields title channel ?r)"
    by (simp add: note_from_response_def p fallback_structure)
  have g: "dict_get (fallback_fields title channel ?r) (lit ''video_title'') PNone = PStr title"
     "dict_get (fallback_fields title channel ?r) (lit ''channel_name'') PNone = PStr channel"
     "dict_get (fallback_fields title channel ?r) (lit ''summary'') PNone = PStr (take 1000 ?r)"
     "dict_get (fallback_fields title channel ?r) (lit ''key_points'') PNone =
        PList [PStr (lit ''Key point extracted from video'')]"
     "dict_get (fallback_fields title channel ?r) (lit ''timestamps'') PNone =
        PList [PDict [(lit ''time'', PStr (lit ''00:00'')),
                      (lit ''description'',
                         PStr (lit ''Video content extracted (parsing failed, using fallback)''))]]"
    by (simp_all add: fallback_fields_def dict_get_def)
  have m: "\<not> field_missing (fallback_fields title channel ?r) (lit ''key_points'')"
     "\<not> field_missing (fallback_fields title channel ?r) (lit ''timestamps'')"
    by (simp_all add: field_missing_def fallback_fields_def dict_get_def nonempty_list_def)
  show ?thesis
    using p n g m by simp
qed

theorem fallback_on_parse_failure_witness:
  "note_from_response (\<lambda>x. Inl JSONDecodeError) (lit ''T'') (lit ''C'') (lit '' ```json oops``` '')
     = Inr (fallback_fields (lit ''T'') (lit ''C'') (lit ''oops'')) \<and>
   dict_get (fallback_fields (lit ''T'') (lit ''C'') (lit ''oops'')) (lit ''summary'') PNone
     = PStr (lit ''oops'')"
proof -
  have f: "strip_code_fences (lit '' ```json oops``` '') = lit ''oops''"
    by (simp add: strip_code_fences_def strip_def isspace_def startswith_def endswith_def lit_def)
  have v: "validate_result (fallback_fields (lit ''T'') (lit ''C'') (lit ''oops''))
             = Inr (fallback_fields (lit ''T'') (lit ''C'') (lit ''oops''))"
    by (simp add: validate_result_def missing_fields_filter required_fields_def field_missing_def
          fallback_fields_def dict_get_def empty_or_blank_def nonempty_list_def strip_def
          isspace_def lit_def)
  have t: "take 1000 (lit ''oops'') = lit ''oops''"
    by (simp add: lit_def)
  show ?thesis
    using fallback_on_parse_failure
            [of "\<lambda>x. Inl JSONDecodeError" "lit '' ```json oops``` ''" "lit ''T''" "lit ''C''"]
    by (simp add: f v t)
qed

text \<open>
  C10: when the response is empty or white space only after the code fences are stripped,
  and so is not JSON, the summary of the fallback object is the empty string. The
  validation fails with status 500 and the detail \<open>Failed to generate complete note.
  Missing required fields: \<close> followed by the names: \<open>video_title\<close> and \<open>channel_name\<close> when
  the title or the channel of the input is blank, and always \<open>summary\<close>, never
  \<open>key_points\<close> or \<open>timestamps\<close>. The generator raises status 500 with that error as its
  cause.
\<close>

theorem blank_response_fails_on_summary:
  assumes g: "gemini_generate_content E
                (prompt_template E (escape_braces title) (escape_braces channel)
                   (escape_braces url) (escape_braces subtitle_text)) = Inr (Some text0)"
    and b: "strip_code_fences text0 = []"
    and j: "json_loads E [] = Inl JSONDecodeError"
  shows "dict_get (fallback_fields title channel []) (lit ''summary'') PNone = PStr [] \<and>
         field_missing (fallback_fields title channel []) (lit ''summary'') \<and>
         \<not> field_missing (fallback_fields title channel []) (lit ''key_points'') \<and>
         \<not> field_missing (fallback_fields title channel []) (lit ''timestamps'') \<and>
         note_from_response (json_loads E) title channel text0 =
           Inl (HTTPException 500
                  (lit ''Failed to generate complete note. Missing required fields: '' @
                   join (lit '', '')
                     ((if strip title = [] then [lit ''video_title''] else []) @
                      (if strip channel = [] then [lit ''channel_name''] else []) @
                      [lit ''summary'']) @
                   lit ''. Please try again or choose a different video.'')) \<and>
         fst (generate_note_with_gemini E s subtitle_text url title channel) =
           Inl (HTTPException 500
                  (lit ''Failed to generate note with AI: '' @
                   str_of_exn E
                     (HTTPException 500
                        (lit ''Failed to generate complete note. Missing required fields: '' @
                         join (lit '', '')
                           ((if strip title = [] then [lit ''video_title''] else []) @
                            (if strip channel = [] then [lit ''channel_name''] else []) @
                            [lit ''summary'']) @
                         lit ''. Please try again or choose a different video.''))))"
proof -
  let ?fb = "fallback_fields title channel []"
  let ?names = "(if strip title = [] then [lit ''video_title''] else []) @
                (if strip channel = [] then [lit ''channel_name''] else []) @
                [lit ''summary'']"
  have s0: "dict_get ?fb (lit ''summary'') PNone = PStr []"
    by (simp add: fallback_fields_def dict_get_def)
  have s1: "field_missing ?fb (lit ''summary'')"
    by (simp add: field_missing_def s0 empty_or_blank_def strip_def)
  have s2: "\<not> field_missing ?fb (lit ''key_points'')" "\<not> field_missing ?fb (lit ''timestamps'')"
    by (simp_all add: field_missing_def fallback_fields_def dict_get_def nonempty_list_def)
  have t: "field_missing ?fb (lit ''video_title'') \<longleftrightarrow> strip title = []"
          "field_missing ?fb (lit ''channel_name'') \<longleftrightarrow> strip channel = []"
    by (simp_all add: field_missing_def fallback_fields_def dict_get_def empty_or_blank_def)
  have names: "filter (field_missing ?fb) required_fields = ?names"
    using s1 s2 t by (simp add: required_fields_def)
  have p: "parse_note_data (json_loads E) title channel [] = Inr (PDict ?fb)"
    using j by (simp add: parse_note_data_def fallback_note_def)
  have v: "validate_result ?fb =
             Inl (HTTPException 500
                    (lit ''Failed to generate complete note. Missing required fields: '' @
                     join (lit '', '') ?names @
                     lit ''. Please try again or choose a different video.''))"
    unfolding validate_result_def missing_fields_filter names generator_missing_detail_def
    by (simp add: Let_def)
  have n: "note_from_response (json_loads E) title channel text0 =
             Inl (HTTPException 500
                    (lit ''Failed to generate complete note. Missing required fields: '' @
                     join (lit '', '') ?names @
                     lit ''. Please try again or choose a different video.''))"
    by (simp only: note_from_response_def b p fallback_structure v pyval.case sum.case)
  have G: "fst (generate_note_with_gemini E s subtitle_text url title channel) =
             Inl (HTTPException 500
                    (lit ''Failed to generate note with AI: '' @
                     str_of_exn E
                       (HTTPException 500
                          (lit ''Failed to generate complete note. Missing required fields: '' @
                           join (lit '', '') ?names @
                           lit ''. Please try again or choose a different video.''))))"
    by (simp only: generate_fst g n sum.case option.case)
  show ?thesis
    using s0 s1 s2 n G by blast
qed

theorem blank_response_fails_on_summary_witness:
  "fst (generate_note_with_gemini
          (sample_env\<lparr>gemini_generate_content := (\<lambda>p. Inr (Some (lit '' ``` ``` '')))\<rparr>)
          empty_world (lit ''spoken words'') sample_url (lit ''A talk'') (lit ''A channel'')) =
     Inl (HTTPException 500
            (lit ''Failed to generate note with AI: 500: Failed to generate complete note. Missing required fields: summary. Please try again or choose a different video.''))"
proof -
  let ?E = "sample_env\<lparr>gemini_generate_content := (\<lambda>p. Inr (Some (lit '' ``` ``` '')))\<rparr>"
  have f: "strip_code_fences (lit '' ``` ``` '') = []"
    by (simp add: strip_code_fences_def strip_def isspace_def startswith_def endswith_def lit_def)
  have st: "strip (lit ''A talk'') \<noteq> []" "strip (lit ''A channel'') \<noteq> []"
    by (simp_all add: strip_def isspace_def lit_def)
  have d: "str_of_int (int 500) = lit ''500''"
    by (simp add: str_of_int_def nat_digits.simps lit_def)
  have e: "str_of_exn ?E (HTTPException 500 x) = lit ''500: '' @ x" for x
    using d by (simp add: sample_env_def lit_def)
  have g: "gemini_generate_content ?E p = Inr (Some (lit '' ``` ``` ''))" for p
    by simp
  have j: "json_loads ?E [] = Inl JSONDecodeError"
    by (simp add: sample_env_def)
  have "fst (generate_note_with_gemini ?E empty_world (lit ''spoken words'') sample_url
               (lit ''A talk'') (lit ''A channel'')) =
          Inl (HTTPException 500
                 (lit ''Failed to generate note with AI: '' @
                  str_of_exn ?E
                    (HTTPException 500
                       (lit ''Failed to generate complete note. Missing required fields: '' @
                        join (lit '', '') [lit ''summary''] @
                        lit ''. Please try again or choose a different video.''))))"
    using blank_response_fails_on_summary [OF g f j, of "lit ''A talk''" "lit ''A channel''"
            empty_world "lit ''spoken words''" sample_url] st
    by simp
  then show ?thesis
    by (simp only: e) (simp add: lit_def)
qed

subsection \<open>Creating a note\<close>

lemma same_rows_refl [simp]: "same_rows s s"
  by (simp add: same_rows_def)

lemma same_rows_trans: "same_rows s s1 \<Longrightarrow> same_rows s1 s2 \<Longrightarrow> same_rows s s2"
  by (simp add: same_rows_def)

lemma same_rows_files [simp]: "same_rows s (s'\<lparr>files := f\<rparr>) = same_rows s s'"
  by (simp add: same_rows_def)

lemma same_rows_calls [simp]:
  "filter is_gemini_call cs = [] \<Longrightarrow>
   same_rows s (s'\<lparr>calls := calls s' @ cs\<rparr>) = same_rows s s'"
  by (simp add: same_rows_def)

lemma transcribe_steps_rows: "same_rows s0 s \<Longrightarrow> same_rows s0 (snd (transcribe_steps E s p))"
  by (simp add: transcribe_steps_def Let_def split: sum.splits)

lemma audio_steps_rows: "same_rows s (snd (audio_steps E s url))"
  unfolding audio_steps_def Let_def
  by (simp split: sum.split option.split prod.split add: transcribe_steps_rows
        split_beta)

lemma get_subtitle_from_audio_rows: "same_rows s0 s \<Longrightarrow> same_rows s0 (snd (get_subtitle_from_audio E s url))"
  using audio_steps_rows [of s E url]
  by (auto simp: get_subtitle_from_audio_def split: prod.splits sum.splits
        intro: same_rows_trans)

lemma subtitle_steps_rows: "same_rows s (snd (subtitle_steps E s url))"
  unfolding subtitle_steps_def Let_def
  by (simp split: sum.split option.split list.split add: split_beta
        get_subtitle_from_audio_rows)

lemma get_video_metadata_rows:
  "same_rows s (snd (get_video_metadata_from_youtube_video_url E s url))"
  using subtitle_steps_rows [of s E url]
  by (auto simp: get_video_metadata_from_youtube_video_url_def split: prod.splits sum.splits)

lemma get_video_metadata_rowsD:
  "get_video_metadata_from_youtube_video_url E s url = (r, s1) \<Longrightarrow> same_rows s s1"
  using get_video_metadata_rows [of s E url] by simp

lemma generate_note_tableD:
  "generate_note_with_gemini E s1 sub url title channel = (r, s2) \<Longrightarrow>
   notes_table s2 = notes_table s1 \<and> next_id s2 = next_id s1 \<and> clock s2 = clock s1"
  using generate_snd [of E s1 sub url title channel] by auto

lemma find_append_None:
  "find P xs = None \<Longrightarrow> find P (xs @ ys) = find P ys"
  by (induction xs) (auto split: if_splits)

lemma persist_note_Inr:
  assumes "persist_note E s uid url gd video = (Inr n, s')"
  shows "user_id n = uid \<and> youtube_url n = url \<and> notes_table s' = notes_table s @ [n] \<and>
         stored_text E (dict_get gd (lit ''video_title'') PNone) = Inr (video_title n) \<and>
         stored_text E (dict_get gd (lit ''channel_name'') PNone) = Inr (channel_name n) \<and>
         stored_text E (dict_get gd (lit ''summary'') PNone) = Inr (summary n) \<and>
         key_points n = (if truthy (dict_get gd (lit ''key_points'') PNone)
                         then Some (dict_get gd (lit ''key_points'') PNone) else None) \<and>
         timestamps n = (if truthy (dict_get gd (lit ''timestamps'') PNone)
                         then Some (dict_get gd (lit ''timestamps'') PNone) else None)"
  using assms unfolding persist_note_def Let_def
  by (auto split: sum.splits option.splits)

lemma persist_note_Inl:
  assumes "persist_note E s uid url gd video = (Inl e, s')"
  shows "notes_table s' = notes_table s \<and> calls s' = calls s"
  using assms unfolding persist_note_def Let_def
  by (auto split: sum.splits option.splits)

lemma create_note_steps_Inr:
  assumes "create_note_steps E s uid url = (Inr n, s')"
  shows "user_id n = uid \<and> youtube_url n = url \<and> notes_table s' = notes_table s @ [n]"
proof -
  obtain r1 s1 where a: "get_video_metadata_from_youtube_video_url E s url = (r1, s1)"
    by (cases "get_video_metadata_from_youtube_video_url E s url")
  from a have rows: "notes_table s1 = notes_table s"
    by (auto dest: get_video_metadata_rowsD simp: same_rows_def)
  from assms a obtain video where r1: "r1 = Inr video"
    by (cases r1) (auto simp: create_note_steps_def)
  obtain r2 s2 where g:
    "generate_note_with_gemini E s1 (v_caption video) url (v_title video) (v_channel_name video)
       = (r2, s2)"
    by (cases "generate_note_with_gemini E s1 (v_caption video) url (v_title video)
                 (v_channel_name video)")
  from g have rows2: "notes_table s2 = notes_table s1"
    by (auto dest: generate_note_tableD)
  from assms a r1 g obtain gd where r2: "r2 = Inr gd"
    by (cases r2) (auto simp: create_note_steps_def Let_def split: if_splits)
  from assms a r1 g r2 have "persist_note E s2 uid url gd video = (Inr n, s')"
    by (auto simp: create_note_steps_def Let_def split: if_splits)
  from persist_note_Inr [OF this] show ?thesis
    by (simp add: rows rows2)
qed

lemma create_note_existing:
  "find (\<lambda>m. user_id m = uid \<and> youtube_url m = url) (notes_table s) = Some n \<Longrightarrow>
   create_note E s uid url = (Inr n, s)"
  by (simp add: create_note_def)

text \<open>
  C1: when a row of the same user and URL exists, \<open>create_note\<close> returns the first such
  row and leaves the whole state as it is: no service is called, so neither the
  acquirer nor the generator runs, and no column of the row, \<open>updated_at\<close> included,
  changes. Hence a call that returned a row returns the same row when it is repeated
  on the state it left, and leaves that state unchanged.
\<close>

theorem create_note_idempotent:
  "(find (\<lambda>m. user_id m = uid \<and> youtube_url m = url) (notes_table s) = Some n \<longrightarrow>
      create_note E s uid url = (Inr n, s)) \<and>
   (create_note E s uid url = (Inr n, s') \<longrightarrow> create_note E s' uid url = (Inr n, s'))"
proof (intro conjI impI)
  assume "find (\<lambda>m. user_id m = uid \<and> youtube_url m = url) (notes_table s) = Some n"
  then show "create_note E s uid url = (Inr n, s)" by (rule create_note_existing)
next
  assume c: "create_note E s uid url = (Inr n, s')"
  show "create_note E s' uid url = (Inr n, s')"
  proof (cases "find (\<lambda>m. user_id m = uid \<and> youtube_url m = url) (notes_table s)")
    case (Some m)
    with c have "n = m" "s' = s" by (simp_all add: create_note_def)
    with Some show ?thesis by (simp add: create_note_existing)
  next
    case None
    with c have st: "create_note_steps E s uid url = (Inr n, s')"
      by (auto simp: create_note_def split: prod.splits sum.splits exn.splits)
    from create_note_steps_Inr [OF st]
    have "find (\<lambda>m. user_id m = uid \<and> youtube_url m = url) (notes_table s') = Some n"
      using None by (simp add: find_append_None)
    then show ?thesis by (rule create_note_existing)
  qed
qed

text \<open>
  C7: when no row of the user and URL exists and acquisition returns an empty or blank
  transcript, \<open>create_note\<close> raises status 404 with the detail about missing captions,
  unchanged by the outer handler. The state is the one acquisition left: the table is
  as before and no call to the generative model has been added.
\<close>

theorem blank_transcript_not_found:
  assumes "find (\<lambda>m. user_id m = uid \<and> youtube_url m = url) (notes_table s) = None"
    and "get_video_metadata_from_youtube_video_url E s url = (Inr video, s1)"
    and "v_caption video = [] \<or> strip (v_caption video) = []"
  shows "create_note E s uid url = (Inl (HTTPException 404 no_captions_detail), s1) \<and>
         notes_table s1 = notes_table s \<and>
         filter is_gemini_call (calls s1) = filter is_gemini_call (calls s)"
proof -
  have "create_note_steps E s uid url = (Inl (HTTPException 404 no_captions_detail), s1)"
    using assms(2,3) by (auto simp: create_note_steps_def Let_def)
  then have "create_note E s uid url = (Inl (HTTPException 404 no_captions_detail), s1)"
    using assms(1) by (simp add: create_note_def)
  moreover have "same_rows s s1"
    using assms(2) by (rule get_video_metadata_rowsD)
  ultimately show ?thesis
    by (simp add: same_rows_def)
qed

lemmas acquire_defs =
  get_video_metadata_from_youtube_video_url_def subtitle_steps_def get_subtitle_from_audio_def
  audio_steps_def transcribe_steps_def temp_audio_dir_def audio_file_path_def
  download_path_def os_path_join_def last_segment_def startswith_def
  endswith_def sample_env_def sample_video_def sample_url_def sample_wav_def empty_world_def

lemma sample_str_of_exn:
  "str_of_exn (sample_env\<lparr>gemini_generate_content := g, json_loads := j,
                 deepgram_transcribe := d\<rparr>) (HTTPException 500 x) = lit ''500: '' @ x"
  by (simp add: sample_env_def str_of_int_def nat_digits.simps lit_def)

lemma sample_acquire:
  "get_video_metadata_from_youtube_video_url
     (sample_env\<lparr>gemini_generate_content := g, json_loads := j,
        deepgram_transcribe := (\<lambda>p. Inr t)\<rparr>) empty_world sample_url =
     (Inr \<lparr>v_title = lit ''A talk'', v_caption = t,
            v_channel_name = lit ''A channel'', v_duration_in_seconds = Some 60,
            v_thumbnail_url = None, v_views = Some 10, v_likes = None,
            v_publish_date = None\<rparr>,
      \<lparr>notes_table = [], next_id = 1, files = {},
         calls = [CallYouTube sample_url, CallYouTube sample_url, CallDeepgram sample_wav],
         clock = 0\<rparr>)"
  by (simp add: acquire_defs Let_def lit_def insert_Diff_if)

theorem blank_transcript_not_found_witness:
  "create_note (sample_env\<lparr>deepgram_transcribe := (\<lambda>p. Inr (lit ''  ''))\<rparr>) empty_world 1
     sample_url =
     (Inl (HTTPException 404 no_captions_detail),
      \<lparr>notes_table = [], next_id = 1, files = {},
         calls = [CallYouTube sample_url, CallYouTube sample_url, CallDeepgram sample_wav],
         clock = 0\<rparr>)"
proof -
  let ?E = "sample_env\<lparr>deepgram_transcribe := (\<lambda>p. Inr (lit ''  ''))\<rparr>"
  have e: "?E = sample_env\<lparr>gemini_generate_content := gemini_generate_content sample_env,
                   json_loads := json_loads sample_env,
                   deepgram_transcribe := (\<lambda>p. Inr (lit ''  ''))\<rparr>"
    by simp
  have a: "get_video_metadata_from_youtube_video_url ?E empty_world sample_url =
     (Inr \<lparr>v_title = lit ''A talk'', v_caption = lit ''  '',
            v_channel_name = lit ''A channel'', v_duration_in_seconds = Some 60,
            v_thumbnail_url = None, v_views = Some 10, v_likes = None,
            v_publish_date = None\<rparr>,
      \<lparr>notes_table = [], next_id = 1, files = {},
         calls = [CallYouTube sample_url, CallYouTube sample_url, CallDeepgram sample_wav],
         clock = 0\<rparr>)"
    by (subst e) (rule sample_acquire)
  have n: "find (\<lambda>m. user_id m = 1 \<and> youtube_url m = sample_url) (notes_table empty_world) = None"
    by (simp add: empty_world_def)
  have b: "strip (lit ''  '') = []"
    by (simp add: strip_def isspace_def lit_def)
  show ?thesis
    using blank_transcript_not_found [OF n a] b by simp
qed

lemma sample_env_eq:
  "sample_env = sample_env\<lparr>gemini_generate_content := gemini_generate_content sample_env,
                   json_loads := json_loads sample_env,
                   deepgram_transcribe := (\<lambda>p. Inr (lit ''spoken words''))\<rparr>"
  by (simp add: sample_env_def)

lemma sample_generate:
  "generate_note_with_gemini sample_env s (lit ''spoken words'') sample_url (lit ''A talk'')
     (lit ''A channel'') =
     (Inr (fallback_fields (lit ''A talk'') (lit ''A channel'') (lit ''no json'')),
      s\<lparr>calls := calls s @ [CallGemini (lit ''spoken words'')]\<rparr>)"
proof -
  have f: "strip_code_fences (lit ''no json'') = lit ''no json''"
    by (simp add: strip_code_fences_def strip_def isspace_def startswith_def endswith_def lit_def)
  have v: "validate_result (fallback_fields (lit ''A talk'') (lit ''A channel'') (lit ''no json''))
             = Inr (fallback_fields (lit ''A talk'') (lit ''A channel'') (lit ''no json''))"
    by (simp add: validate_result_def missing_fields_filter required_fields_def field_missing_def
          fallback_fields_def dict_get_def empty_or_blank_def nonempty_list_def strip_def
          isspace_def lit_def)
  have n: "note_from_response (json_loads sample_env) (lit ''A talk'') (lit ''A channel'')
             (lit ''no json'') =
           Inr (fallback_fields (lit ''A talk'') (lit ''A channel'') (lit ''no json''))"
    by (simp add: note_from_response_def f parse_note_data_def sample_env_def fallback_note_def
          fallback_structure v)
  have e: "escape_braces (lit ''spoken words'') = lit ''spoken words''"
    by (simp add: escape_braces_def replace_char_def lit_def)
  have p: "prompt_template sample_env a b c d = d" for a b c d
    by (simp add: sample_env_def)
  have g: "gemini_generate_content sample_env x = Inr (Some (lit ''no json''))" for x
    by (simp add: sample_env_def)
  show ?thesis
    by (simp add: generate_note_with_gemini_def Let_def p g n e)
qed

lemma sample_env_commit: "session_commit sample_env n = None"
  by (simp add: sample_env_def)

lemma sample_create:
  "create_note sample_env empty_world 1 sample_url = (Inr sample_note, sample_world)"
proof -
  have a: "get_video_metadata_from_youtube_video_url sample_env empty_world sample_url =
     (Inr \<lparr>v_title = lit ''A talk'', v_caption = lit ''spoken words'',
            v_channel_name = lit ''A channel'', v_duration_in_seconds = Some 60,
            v_thumbnail_url = None, v_views = Some 10, v_likes = None,
            v_publish_date = None\<rparr>,
      \<lparr>notes_table = [], next_id = 1, files = {},
         calls = [CallYouTube sample_url, CallYouTube sample_url, CallDeepgram sample_wav],
         clock = 0\<rparr>)"
    by (subst sample_env_eq) (rule sample_acquire)
  have b: "strip (lit ''spoken words'') \<noteq> []" "lit ''spoken words'' \<noteq> []"
    by (simp_all add: strip_def isspace_def lit_def)
  have m: "missing_fields (fallback_fields (lit ''A talk'') (lit ''A channel'') (lit ''no json'')) = []"
    by (simp add: missing_fields_filter required_fields_def field_missing_def
          fallback_fields_def dict_get_def empty_or_blank_def nonempty_list_def strip_def
          isspace_def lit_def)
  have u: "datetime_utcnow sample_env = int"
    by (simp add: sample_env_def)
  have st: "create_note_steps sample_env empty_world 1 sample_url = (Inr sample_note, sample_world)"
    by (simp add: create_note_steps_def a b sample_generate m Let_def)
       (simp add: u persist_note_def stored_text_def fallback_fields_def dict_get_def
          sample_env_commit Let_def sample_note_def sample_world_def lit_def)
  have n: "find (\<lambda>m. user_id m = 1 \<and> youtube_url m = sample_url) (notes_table empty_world) = None"
    by (simp add: empty_world_def)
  show ?thesis
    by (simp add: create_note_def n st)
qed

theorem create_note_idempotent_witness:
  "create_note sample_env empty_world 1 sample_url = (Inr sample_note, sample_world) \<and>
   create_note sample_env sample_world 1 sample_url = (Inr sample_note, sample_world) \<and>
   note_id sample_note = 1 \<and> updated_at sample_note = 1"
  using create_note_idempotent [of 1 sample_url empty_world sample_note sample_env sample_world]
    sample_create
  by (simp add: sample_note_def)

subsection \<open>The invariant of stored notes\<close>

lemma missing_fields_NilD:
  assumes "missing_fields gd = []"
  shows "\<not> empty_or_blank (dict_get gd (lit ''video_title'') PNone)"
    and "\<not> empty_or_blank (dict_get gd (lit ''channel_name'') PNone)"
    and "\<not> empty_or_blank (dict_get gd (lit ''summary'') PNone)"
    and "nonempty_list (dict_get gd (lit ''key_points'') (PList []))"
    and "nonempty_list (dict_get gd (lit ''timestamps'') (PList []))"
  using assms
  by (simp_all add: missing_fields_def Let_def field_blank_iff not_nonempty_list_iff
        split: if_splits)

lemma nonempty_list_stored:
  assumes "nonempty_list (dict_get gd k (PList []))"
  shows "truthy (dict_get gd k PNone) \<and> nonempty_list (dict_get gd k PNone)"
proof (cases "map_of gd k")
  case None
  with assms show ?thesis by (simp add: dict_get_def nonempty_list_def)
next
  case (Some v)
  with assms show ?thesis
    by (cases v) (simp_all add: dict_get_def nonempty_list_def)
qed

lemma stored_text_complete:
  assumes "adapts_to_text E" and "\<not> empty_or_blank v" and "stored_text E v = Inr v'"
  shows "\<not> empty_or_blank v'"
proof (cases "\<exists>t. v = PStr t")
  case True
  with assms(2,3) show ?thesis by (auto simp: stored_text_def)
next
  case False
  with assms(2) have "stored_text E v = db_adapt E v"
    by (cases v) (simp_all add: stored_text_def empty_or_blank_def)
  with assms(1,3) show ?thesis by (simp add: adapts_to_text_def)
qed

lemma create_note_steps_complete:
  assumes "create_note_steps E s uid url = (Inr n, s')" and ad: "adapts_to_text E"
  shows "note_complete n"
proof -
  obtain r1 s1 where a: "get_video_metadata_from_youtube_video_url E s url = (r1, s1)"
    by (cases "get_video_metadata_from_youtube_video_url E s url")
  from assms a obtain video where r1: "r1 = Inr video"
    by (cases r1) (auto simp: create_note_steps_def)
  obtain r2 s2 where g:
    "generate_note_with_gemini E s1 (v_caption video) url (v_title video) (v_channel_name video)
       = (r2, s2)"
    by (cases "generate_note_with_gemini E s1 (v_caption video) url (v_title video)
                 (v_channel_name video)")
  from assms a r1 g obtain gd where r2: "r2 = Inr gd"
    by (cases r2) (auto simp: create_note_steps_def Let_def split: if_splits)
  from assms a r1 g r2 have m: "missing_fields gd = []"
    by (auto simp: create_note_steps_def Let_def split: if_splits)
  from assms a r1 g r2 have "persist_note E s2 uid url gd video = (Inr n, s')"
    by (auto simp: create_note_steps_def Let_def split: if_splits)
  note p = persist_note_Inr [OF this]
  note k = nonempty_list_stored [OF missing_fields_NilD(4) [OF m]]
  note t = nonempty_list_stored [OF missing_fields_NilD(5) [OF m]]
  have "\<not> empty_or_blank (video_title n)"
    using stored_text_complete [OF ad missing_fields_NilD(1) [OF m]] p by blast
  moreover have "\<not> empty_or_blank (channel_name n)"
    using stored_text_complete [OF ad missing_fields_NilD(2) [OF m]] p by blast
  moreover have "\<not> empty_or_blank (summary n)"
    using stored_text_complete [OF ad missing_fields_NilD(3) [OF m]] p by blast
  moreover have "key_points n = Some (dict_get gd (lit ''key_points'') PNone)"
    using p k by simp
  moreover have "timestamps n = Some (dict_get gd (lit ''timestamps'') PNone)"
    using p t by simp
  ultimately show ?thesis
    using k t by (simp add: note_complete_def)
qed

lemma create_note_steps_Inl:
  assumes "create_note_steps E s uid url = (Inl e, s')"
  shows "notes_table s' = notes_table s"
proof -
  obtain r1 s1 where a: "get_video_metadata_from_youtube_video_url E s url = (r1, s1)"
    by (cases "get_video_metadata_from_youtube_video_url E s url")
  from a have rows: "notes_table s1 = notes_table s"
    by (auto dest: get_video_metadata_rowsD simp: same_rows_def)
  show ?thesis
  proof (cases r1)
    case (Inl e1)
    with assms a rows show ?thesis by (auto simp: create_note_steps_def)
  next
    case (Inr video)
    obtain r2 s2 where g:
      "generate_note_with_gemini E s1 (v_caption video) url (v_title video) (v_channel_name video)
         = (r2, s2)"
      by (cases "generate_note_with_gemini E s1 (v_caption video) url (v_title video)
                   (v_channel_name video)")
    from g have rows2: "notes_table s2 = notes_table s1"
      by (auto dest: generate_note_tableD)
    from assms a Inr g rows rows2 show ?thesis
      by (cases r2) (auto simp: create_note_steps_def Let_def split: if_splits
            dest: persist_note_Inl)
  qed
qed

lemma create_note_cases:
  "(\<exists>n. n \<in> set (notes_table s) \<and> create_note E s uid url = (Inr n, s)) \<or>
   (\<exists>n s'. create_note E s uid url = (Inr n, s') \<and> notes_table s' = notes_table s @ [n] \<and>
      (adapts_to_text E \<longrightarrow> note_complete n)) \<or>
   (\<exists>e s'. create_note E s uid url = (Inl e, s') \<and> notes_table s' = notes_table s)"
proof (cases "find (\<lambda>m. user_id m = uid \<and> youtube_url m = url) (notes_table s)")
  case (Some m)
  then have "m \<in> set (notes_table s)"
    by (auto simp: find_Some_iff)
  with Some show ?thesis by (simp add: create_note_existing)
next
  case None
  obtain r s' where st: "create_note_steps E s uid url = (r, s')"
    by (cases "create_note_steps E s uid url")
  show ?thesis
  proof (cases r)
    case (Inl e)
    with st create_note_steps_Inl [of E s uid url e s'] None show ?thesis
      by (cases e) (simp_all add: create_note_def)
  next
    case (Inr n)
    with st create_note_steps_Inr [of E s uid url n s'] create_note_steps_complete [of E s uid url n s']
      None show ?thesis
      by (simp add: create_note_def)
  qed
qed

lemma update_note_Inr:
  assumes "update_note E s nid uid upd = (Inr n', s'')"
  shows "\<exists>n. get_note_by_id s nid uid = Inr n \<and>
           video_title n' = set_text (u_video_title upd) (video_title n) \<and>
           channel_name n' = set_text (u_channel_name upd) (channel_name n) \<and>
           summary n' = set_text (u_summary upd) (summary n) \<and>
           key_points n' = set_json (u_key_points upd) (\<lambda>ks. PList (map PStr ks)) (key_points n) \<and>
           timestamps n' = set_json (u_timestamps upd) (\<lambda>ts. PList (map PDict ts)) (timestamps n) \<and>
           notes_table s'' = map (\<lambda>m. if note_id m = nid then n' else m) (notes_table s)"
  using assms unfolding update_note_def Let_def
  by (auto split: sum.splits option.splits)

lemma get_note_by_id_Inr:
  assumes "get_note_by_id s nid uid = Inr n"
  shows "n \<in> set (notes_table s) \<and> note_id n = nid \<and> user_id n = uid"
  using assms unfolding get_note_by_id_def
  by (auto split: option.splits if_splits simp: find_Some_iff)

lemma update_note_stored:
  assumes "update_note E s nid uid upd = (Inr n', s'')"
  shows "n' \<in> set (notes_table s'')"
proof -
  from update_note_Inr [OF assms] obtain n where
    g: "get_note_by_id s nid uid = Inr n" and
    t: "notes_table s'' = map (\<lambda>m. if note_id m = nid then n' else m) (notes_table s)"
    by blast
  from get_note_by_id_Inr [OF g] have "n \<in> set (notes_table s)" "note_id n = nid"
    by simp_all
  then have "(\<lambda>m. if note_id m = nid then n' else m) n \<in> set (notes_table s'')"
    unfolding t set_map by (intro imageI)
  with \<open>note_id n = nid\<close> show ?thesis by simp
qed

lemma update_note_incomplete:
  assumes "update_note E s nid uid upd = (Inr n', s'')" and b: "blanks_a_field upd"
  shows "\<not> note_complete n'"
proof -
  from update_note_Inr [OF assms(1)] obtain n where
    f0: "get_note_by_id s nid uid = Inr n \<and>
         video_title n' = set_text (u_video_title upd) (video_title n) \<and>
         channel_name n' = set_text (u_channel_name upd) (channel_name n) \<and>
         summary n' = set_text (u_summary upd) (summary n) \<and>
         key_points n' = set_json (u_key_points upd) (\<lambda>ks. PList (map PStr ks)) (key_points n) \<and>
         timestamps n' = set_json (u_timestamps upd) (\<lambda>ts. PList (map PDict ts)) (timestamps n) \<and>
         notes_table s'' = map (\<lambda>m. if note_id m = nid then n' else m) (notes_table s)" ..
  then have f:
       "video_title n' = set_text (u_video_title upd) (video_title n)"
       "channel_name n' = set_text (u_channel_name upd) (channel_name n)"
       "summary n' = set_text (u_summary upd) (summary n)"
       "key_points n' = set_json (u_key_points upd) (\<lambda>ks. PList (map PStr ks)) (key_points n)"
       "timestamps n' = set_json (u_timestamps upd) (\<lambda>ts. PList (map PDict ts)) (timestamps n)"
    by simp_all
  from b show ?thesis
    unfolding blanks_a_field_def note_complete_def f
    by (auto simp: set_text_def set_json_def empty_or_blank_def nonempty_list_def
          split: option.splits)
qed

lemma update_note_succeeds:
  assumes "get_note_by_id s nid uid = Inr n" and "session_commit E = (\<lambda>x. None)"
  shows "\<exists>n' s''. update_note E s nid uid upd = (Inr n', s'')"
  using assms by (simp add: update_note_def Let_def)

lemma nat_digits_digits: "nat_digits n \<noteq> [] \<and> (\<forall>c \<in> set (nat_digits n). 48 \<le> c \<and> c \<le> 57)"
proof (induction n rule: nat_digits.induct)
  case (1 n)
  show ?case
  proof (cases "n < 10")
    case True
    then show ?thesis by (subst (1 2) nat_digits.simps) simp
  next
    case False
    have "n mod 10 < 10" by simp
    then have "48 + n mod 10 \<le> 57" by linarith
    with False "1.IH" show ?thesis by (subst (1 2) nat_digits.simps) simp
  qed
qed

lemma strip_not_blank:
  assumes "s \<noteq> []" and "\<forall>c \<in> set s. \<not> isspace c"
  shows "strip s \<noteq> []"
proof -
  from assms have "dropWhile isspace s = s"
    by (cases s) simp_all
  moreover from assms have "dropWhile isspace (rev s) = rev s"
    using last_in_set [of s] by (auto simp: dropWhile_eq_self_iff hd_rev)
  ultimately show ?thesis using assms(1) by (simp add: strip_def)
qed

lemma str_of_int_not_blank: "strip (str_of_int i) \<noteq> []"
proof (rule strip_not_blank)
  show "str_of_int i \<noteq> []"
    using nat_digits_digits by (simp add: str_of_int_def)
  show "\<forall>c \<in> set (str_of_int i). \<not> isspace c"
    using nat_digits_digits [of "nat i"] nat_digits_digits [of "nat (- i)"]
    by (auto simp: str_of_int_def isspace_def)
qed

lemma sample_env_adapts: "adapts_to_text sample_env"
  unfolding adapts_to_text_def
proof (intro allI impI)
  fix v v'
  assume "db_adapt sample_env v = Inr v'"
  then show "\<not> empty_or_blank v'"
    by (cases v) (auto simp: sample_env_def empty_or_blank_def str_of_int_not_blank)
qed

text \<open>
  C2 (as amended): whatever the table holds, a call to \<open>create_note\<close> that returns a row
  either returns a row that was stored before and leaves the state as it is, or appends
  the row it returns, and this row has a title, a channel and a summary that are neither
  empty nor blank and non-empty lists of key points and timestamps, provided the
  database driver makes no blank text of a value that is not a string. A call that fails
  stores nothing, and so \<open>create_note\<close> preserves the invariant of the table.
  \<open>update_note\<close> does not validate: whenever a request that sets a required field to
  null, to an empty or blank text or to an empty list succeeds, the row it stores is in
  the table and breaks the invariant; and it succeeds for every row of the user when
  the commit does.
\<close>

theorem create_note_persists_complete_notes:
  "(create_note E s uid url = (Inr n, s') \<longrightarrow> adapts_to_text E \<longrightarrow>
      (n \<in> set (notes_table s) \<and> s' = s) \<or>
      (notes_table s' = notes_table s @ [n] \<and> note_complete n)) \<and>
   (create_note E s uid url = (Inl e, s') \<longrightarrow> notes_table s' = notes_table s) \<and>
   (adapts_to_text E \<longrightarrow> (\<forall>x \<in> set (notes_table s). note_complete x) \<longrightarrow>
      (\<forall>x \<in> set (notes_table (snd (create_note E s uid url))). note_complete x)) \<and>
   (update_note E s nid uid upd = (Inr m, s'') \<longrightarrow> blanks_a_field upd \<longrightarrow>
      m \<in> set (notes_table s'') \<and> \<not> note_complete m) \<and>
   (get_note_by_id s nid uid = Inr k \<longrightarrow> session_commit E = (\<lambda>x. None) \<longrightarrow>
      (\<exists>m' t. update_note E s nid uid upd = (Inr m', t)))"
proof (intro conjI impI)
  assume "create_note E s uid url = (Inr n, s')" "adapts_to_text E"
  with create_note_cases [of s E uid url]
  show "(n \<in> set (notes_table s) \<and> s' = s) \<or>
        (notes_table s' = notes_table s @ [n] \<and> note_complete n)"
    by auto
next
  assume "create_note E s uid url = (Inl e, s')"
  with create_note_cases [of s E uid url] show "notes_table s' = notes_table s"
    by auto
next
  assume "adapts_to_text E" "\<forall>x \<in> set (notes_table s). note_complete x"
  with create_note_cases [of s E uid url]
  show "\<forall>x \<in> set (notes_table (snd (create_note E s uid url))). note_complete x"
    by auto
next
  assume u: "update_note E s nid uid upd = (Inr m, s'')" and b: "blanks_a_field upd"
  show "m \<in> set (notes_table s'')" by (rule update_note_stored [OF u])
  show "\<not> note_complete m" by (rule update_note_incomplete [OF u b])
next
  assume "get_note_by_id s nid uid = Inr k" "session_commit E = (\<lambda>x. None)"
  then show "\<exists>m' t. update_note E s nid uid upd = (Inr m', t)"
    by (rule update_note_succeeds)
qed

lemma sample_note_complete: "note_complete sample_note"
  by (simp add: note_complete_def sample_note_def empty_or_blank_def nonempty_list_def
        strip_def isspace_def lit_def)

lemma sample_update:
  "update_note sample_env sample_world 1 1 blank_summary_update =
     (Inr (sample_note\<lparr>summary := PStr [], updated_at := 2\<rparr>),
      sample_world\<lparr>clock := 3,
        notes_table := [sample_note\<lparr>summary := PStr [], updated_at := 2\<rparr>]\<rparr>)"
  by (simp add: update_note_def get_note_by_id_def sample_world_def sample_note_def
        blank_summary_update_def set_text_def set_json_def set_attr_def sample_env_def
        Let_def)

lemma sample_blank_create:
  "create_note (sample_env\<lparr>deepgram_transcribe := (\<lambda>p. Inr (lit ''  ''))\<rparr>) empty_world 1
     sample_url =
     (Inl (HTTPException 404 no_captions_detail),
      \<lparr>notes_table = [], next_id = 1, files = {},
         calls = [CallYouTube sample_url, CallYouTube sample_url, CallDeepgram sample_wav],
         clock = 0\<rparr>)"
proof -
  let ?E = "sample_env\<lparr>deepgram_transcribe := (\<lambda>p. Inr (lit ''  ''))\<rparr>"
  have e: "?E = sample_env\<lparr>gemini_generate_content := gemini_generate_content sample_env,
                   json_loads := json_loads sample_env,
                   deepgram_transcribe := (\<lambda>p. Inr (lit ''  ''))\<rparr>"
    by simp
  have a: "get_video_metadata_from_youtube_video_url ?E empty_world sample_url =
     (Inr \<lparr>v_title = lit ''A talk'', v_caption = lit ''  '',
            v_channel_name = lit ''A channel'', v_duration_in_seconds = Some 60,
            v_thumbnail_url = None, v_views = Some 10, v_likes = None,
            v_publish_date = None\<rparr>,
      \<lparr>notes_table = [], next_id = 1, files = {},
         calls = [CallYouTube sample_url, CallYouTube sample_url, CallDeepgram sample_wav],
         clock = 0\<rparr>)"
    by (subst e) (rule sample_acquire)
  have n: "find (\<lambda>m. user_id m = 1 \<and> youtube_url m = sample_url) (notes_table empty_world) = None"
    by (simp add: empty_world_def)
  have b: "strip (lit ''  '') = []"
    by (simp add: strip_def isspace_def lit_def)
  show ?thesis
    by (simp add: create_note_def n create_note_steps_def a b Let_def)
qed

theorem create_note_persists_complete_notes_witness:
  "adapts_to_text sample_env \<and>
   create_note sample_env empty_world 1 sample_url = (Inr sample_note, sample_world) \<and>
   sample_note \<notin> set (notes_table empty_world) \<and>
   notes_table sample_world = notes_table empty_world @ [sample_note] \<and>
   note_complete sample_note \<and>
   fst (create_note (sample_env\<lparr>deepgram_transcribe := (\<lambda>p. Inr (lit ''  ''))\<rparr>) empty_world 1
          sample_url) = Inl (HTTPException 404 no_captions_detail) \<and>
   notes_table (snd (create_note (sample_env\<lparr>deepgram_transcribe := (\<lambda>p. Inr (lit ''  ''))\<rparr>)
                       empty_world 1 sample_url)) = notes_table empty_world \<and>
   get_note_by_id sample_world 1 1 = Inr sample_note \<and>
   session_commit sample_env = (\<lambda>x. None) \<and>
   blanks_a_field blank_summary_update \<and>
   fst (update_note sample_env sample_world 1 1 blank_summary_update) =
     Inr (sample_note\<lparr>summary := PStr [], updated_at := 2\<rparr>) \<and>
   sample_note\<lparr>summary := PStr [], updated_at := 2\<rparr> \<in>
     set (notes_table (snd (update_note sample_env sample_world 1 1 blank_summary_update))) \<and>
   \<not> note_complete (sample_note\<lparr>summary := PStr [], updated_at := 2\<rparr>)"
proof -
  let ?B = "sample_env\<lparr>deepgram_transcribe := (\<lambda>p. Inr (lit ''  ''))\<rparr>"
  let ?m = "sample_note\<lparr>summary := PStr [], updated_at := 2\<rparr>"
  let ?t = "sample_world\<lparr>clock := 3, notes_table := [?m]\<rparr>"
  have b: "blanks_a_field blank_summary_update"
    by (simp add: blanks_a_field_def blank_summary_update_def strip_def)
  have g: "get_note_by_id sample_world 1 1 = Inr sample_note"
    by (simp add: get_note_by_id_def sample_world_def sample_note_def)
  have c: "session_commit sample_env = (\<lambda>x. None)"
    by (simp add: sample_env_def)
  have w: "empty_world = \<lparr>notes_table = [], next_id = 1, files = {}, calls = [], clock = 0\<rparr>"
    by (simp add: empty_world_def)
  note c1 = create_note_persists_complete_notes
              [where E = sample_env and s = empty_world and uid = 1 and url = sample_url
                 and n = sample_note and s' = sample_world]
  note c2 = create_note_persists_complete_notes
              [where E = ?B and s = empty_world and uid = 1 and url = sample_url
                 and e = "HTTPException 404 no_captions_detail"
                 and s' = "\<lparr>notes_table = [], next_id = 1, files = {},
                           calls = [CallYouTube sample_url, CallYouTube sample_url,
                                    CallDeepgram sample_wav],
                           clock = 0\<rparr>"]
  note c3 = create_note_persists_complete_notes
              [where E = sample_env and s = sample_world and nid = 1 and uid = 1
                 and upd = blank_summary_update and m = ?m and s'' = ?t
                 and k = sample_note]
  have n: "note_complete sample_note"
    using c1 sample_create sample_env_adapts by (simp add: w)
  have t: "notes_table sample_world = notes_table empty_world @ [sample_note]"
    "sample_note \<notin> set (notes_table empty_world)"
    by (simp_all add: sample_world_def w)
  have i: "\<not> note_complete ?m" "?m \<in> set (notes_table ?t)"
    using c3 sample_update b by simp_all
  have f: "notes_table (snd (create_note ?B empty_world 1 sample_url)) = notes_table empty_world"
    using c2 sample_blank_create by (simp add: w)
  show ?thesis
    using sample_env_adapts sample_create n t f g c b i
    by (simp add: sample_blank_create sample_update)
qed

text \<open>
  The claim as stated fails for \<open>update_note\<close>, which assigns the fields of the request
  without validating them: a request that sets the summary to the empty string is
  accepted and the row is stored with an empty summary.
\<close>

theorem update_note_blank_summary_counterexample:
  "note_complete sample_note \<and>
   notes_table sample_world = [sample_note] \<and>
   fst (update_note sample_env sample_world 1 1 blank_summary_update) =
     Inr (sample_note\<lparr>summary := PStr [], updated_at := 2\<rparr>) \<and>
   notes_table (snd (update_note sample_env sample_world 1 1 blank_summary_update)) =
     [sample_note\<lparr>summary := PStr [], updated_at := 2\<rparr>] \<and>
   \<not> note_complete (sample_note\<lparr>summary := PStr [], updated_at := 2\<rparr>)"
  by (simp add: sample_update sample_note_complete)
     (simp add: sample_world_def note_complete_def sample_note_def empty_or_blank_def strip_def)

subsection \<open>Error propagation and scratch files\<close>

text \<open>
  What \<open>create_note\<close> does with an exception of its body: an \<open>HTTPException\<close> is raised
  again with the same status and detail, anything else becomes status 500.
\<close>

lemma create_note_passes_http_exception:
  "find (\<lambda>m. user_id m = uid \<and> youtube_url m = url) (notes_table s) = None \<Longrightarrow>
   create_note_steps E s uid url = (Inl (HTTPException c d), s') \<Longrightarrow>
   create_note E s uid url = (Inl (HTTPException c d), s')"
  by (simp add: create_note_def)

lemma create_note_wraps_other_exception:
  "find (\<lambda>m. user_id m = uid \<and> youtube_url m = url) (notes_table s) = None \<Longrightarrow>
   create_note_steps E s uid url = (Inl e, s') \<Longrightarrow>
   \<forall>c d. e \<noteq> HTTPException c d \<Longrightarrow>
   create_note E s uid url =
     (Inl (HTTPException 500 (lit ''Failed to create note: '' @ str_of_exn E e)), s')"
  by (cases e) (simp_all add: create_note_def)

lemma generator_wraps_own_error:
  "gemini_generate_content E
     (prompt_template E (escape_braces title) (escape_braces channel)
        (escape_braces url) (escape_braces subtitle_text)) = Inr (Some text0) \<Longrightarrow>
   note_from_response (json_loads E) title channel text0 = Inl e \<Longrightarrow>
   fst (generate_note_with_gemini E s subtitle_text url title channel) =
     Inl (HTTPException 500 (lit ''Failed to generate note with AI: '' @ str_of_exn E e))"
  by (simp add: generate_fst)

lemma wrapped_detail_differs:
  "lit ''Failed to generate note with AI: '' @ x \<noteq> generator_missing_detail ms"
proof
  assume "lit ''Failed to generate note with AI: '' @ x = generator_missing_detail ms"
  then have "take 20 (lit ''Failed to generate note with AI: '' @ x) =
             take 20 (generator_missing_detail ms)"
    by simp
  then show False
    by (simp add: generator_missing_detail_def lit_def)
qed

text \<open>
  C8: a run of \<open>create_note\<close> in which the model's answer has an empty list of key points.
  The validation in the generator raises status 500 with the detail that names
  \<open>key_points\<close>; the generator's own handler catches it and raises status 500 with the
  prefixed \<open>str(e)\<close>, and this second error, whose detail differs from the first, is what
  \<open>create_note\<close> surfaces.
\<close>

theorem validation_error_is_wrapped_again:
  "validate_result (structure_result no_key_points_object (lit ''A talk'') (lit ''A channel'')) =
     Inl (HTTPException 500 (generator_missing_detail [lit ''key_points''])) \<and>
   fst (create_note (sample_env\<lparr>json_loads := (\<lambda>x. Inr (PDict no_key_points_object))\<rparr>)
          empty_world 1 sample_url) =
     Inl (HTTPException 500
            (lit ''Failed to generate note with AI: 500: '' @
             generator_missing_detail [lit ''key_points''])) \<and>
   lit ''Failed to generate note with AI: 500: '' @ generator_missing_detail [lit ''key_points'']
     \<noteq> generator_missing_detail [lit ''key_points'']"
proof -
  let ?E = "sample_env\<lparr>json_loads := (\<lambda>x. Inr (PDict no_key_points_object))\<rparr>"
  let ?E' = "sample_env\<lparr>gemini_generate_content := gemini_generate_content sample_env,
                json_loads := (\<lambda>x. Inr (PDict no_key_points_object)),
                deepgram_transcribe := (\<lambda>p. Inr (lit ''spoken words''))\<rparr>"
  have E: "?E = ?E'" by (simp add: sample_env_def)
  have sr: "structure_result no_key_points_object (lit ''A talk'') (lit ''A channel'')
              = no_key_points_object"
    by (simp add: structure_result_def no_key_points_object_def dict_get_def Let_def)
  have mf: "filter (field_missing no_key_points_object) required_fields = [lit ''key_points'']"
    by (simp add: required_fields_def field_missing_def no_key_points_object_def dict_get_def
          empty_or_blank_def nonempty_list_def strip_def isspace_def lit_def)
  have v: "validate_result no_key_points_object =
             Inl (HTTPException 500 (generator_missing_detail [lit ''key_points'']))"
    by (simp add: validate_result_def missing_fields_filter mf)
  have n: "note_from_response (json_loads ?E) (lit ''A talk'') (lit ''A channel'') t =
             Inl (HTTPException 500 (generator_missing_detail [lit ''key_points'']))" for t
    by (simp add: note_from_response_def parse_note_data_def sr v)
  have g: "gemini_generate_content ?E p = Inr (Some (lit ''no json''))" for p
    by (simp add: sample_env_def)
  have s: "str_of_exn sample_env (HTTPException 500 x) = lit ''500: '' @ x" for x
    by (simp add: sample_env_def str_of_int_def nat_digits.simps lit_def)
  have gen: "fst (generate_note_with_gemini ?E s1 (lit ''spoken words'') sample_url (lit ''A talk'')
                    (lit ''A channel'')) =
               Inl (HTTPException 500
                      (lit ''Failed to generate note with AI: 500: '' @
                       generator_missing_detail [lit ''key_points'']))" for s1
    using generator_wraps_own_error [OF g n] by (simp add: s lit_def)
  have a: "get_video_metadata_from_youtube_video_url ?E empty_world sample_url =
     (Inr \<lparr>v_title = lit ''A talk'', v_caption = lit ''spoken words'',
            v_channel_name = lit ''A channel'', v_duration_in_seconds = Some 60,
            v_thumbnail_url = None, v_views = Some 10, v_likes = None,
            v_publish_date = None\<rparr>,
      \<lparr>notes_table = [], next_id = 1, files = {},
         calls = [CallYouTube sample_url, CallYouTube sample_url, CallDeepgram sample_wav],
         clock = 0\<rparr>)"
    unfolding E by (rule sample_acquire)
  have b: "strip (lit ''spoken words'') \<noteq> []" "lit ''spoken words'' \<noteq> []"
    by (simp_all add: strip_def isspace_def lit_def)
  have st: "fst (create_note_steps ?E empty_world 1 sample_url) =
              Inl (HTTPException 500
                     (lit ''Failed to generate note with AI: 500: '' @
                      generator_missing_detail [lit ''key_points'']))"
    using gen by (simp add: create_note_steps_def a b Let_def split_beta split: sum.splits)
  have f: "find (\<lambda>m. user_id m = 1 \<and> youtube_url m = sample_url) (notes_table empty_world) = None"
    by (simp add: empty_world_def)
  have c: "fst (create_note ?E empty_world 1 sample_url) =
              Inl (HTTPException 500
                     (lit ''Failed to generate note with AI: 500: '' @
                      generator_missing_detail [lit ''key_points'']))"
    using st f by (cases "create_note_steps ?E empty_world 1 sample_url")
      (simp add: create_note_def)
  have d: "lit ''Failed to generate note with AI: 500: '' @ generator_missing_detail [lit ''key_points'']
             \<noteq> generator_missing_detail [lit ''key_points'']"
    using wrapped_detail_differs [of "lit ''500: '' @ generator_missing_detail [lit ''key_points'']"
            "[lit ''key_points'']"]
    by (simp add: lit_def)
  show ?thesis
    using sr v c d by simp
qed

lemmas audio_defs =
  get_subtitle_from_audio_def audio_steps_def transcribe_steps_def temp_audio_dir_def
  audio_file_path_def download_path_def os_path_join_def last_segment_def startswith_def
  endswith_def sample_env_def sample_video_def sample_url_def sample_wav_def empty_world_def
  failing_transcription_env_def str_of_int_def nat_digits.simps

text \<open>
  C9: two runs of the audio path on a state without files. When the transcription
  succeeds, no file is left. When the transcription service raises, the download has
  been removed but the normalised file is still there.
\<close>

theorem failed_transcription_leaves_wav:
  "audio_file_path failing_transcription_env sample_url = sample_wav \<and>
   get_subtitle_from_audio sample_env empty_world sample_url =
     (Inr (lit ''spoken words''),
      \<lparr>notes_table = [], next_id = 1, files = {},
         calls = [CallYouTube sample_url, CallDeepgram sample_wav], clock = 0\<rparr>) \<and>
   get_subtitle_from_audio failing_transcription_env empty_world sample_url =
     (Inl (HTTPException 500
             (lit ''Failed to get subtitle from audio of YouTube video: 500: Failed to convert audio to text: boom'')),
      \<lparr>notes_table = [], next_id = 1, files = {sample_wav},
         calls = [CallYouTube sample_url, CallDeepgram sample_wav], clock = 0\<rparr>)"
proof -
  have p: "audio_file_path failing_transcription_env sample_url = sample_wav"
    by (simp add: audio_defs lit_def)
  have ok: "get_subtitle_from_audio sample_env empty_world sample_url =
     (Inr (lit ''spoken words''),
      \<lparr>notes_table = [], next_id = 1, files = {},
         calls = [CallYouTube sample_url, CallDeepgram sample_wav], clock = 0\<rparr>)"
    by (simp add: audio_defs Let_def lit_def insert_Diff_if)
  have bad: "get_subtitle_from_audio failing_transcription_env empty_world sample_url =
     (Inl (HTTPException 500
             (lit ''Failed to get subtitle from audio of YouTube video: 500: Failed to convert audio to text: boom'')),
      \<lparr>notes_table = [], next_id = 1, files = {sample_wav},
         calls = [CallYouTube sample_url, CallDeepgram sample_wav], clock = 0\<rparr>)"
    by (simp add: audio_defs Let_def lit_def insert_Diff_if)
  show ?thesis
    using p ok bad by simp
qed

end
